theory Spec2Isabelle
  imports Complex_Main "HOL-Library.Log_Nat"
begin

section \<open>Shopping-cart domain model of libs/cart-shared/src/domain\<close>

text \<open>
  A shallow embedding of the TypeScript domain layer: the value objects \<open>Money\<close> and
  \<open>Quantity\<close>, the identifiers, the entity \<open>CartItem\<close> and the aggregate root \<open>Cart\<close>,
  with the error classes of \<open>errors/cart.errors.ts\<close>.

  Conventions of the embedding.
  \<^item> A \<open>throw\<close> is the left injection of a sum: a method that returns \<open>T\<close> or throws has
    type \<open>error + T\<close>; a \<open>void\<close> validator that may throw has type \<open>error option\<close>
    (\<open>None\<close>: it returned).
  \<^item> A JavaScript \<open>number\<close> is an IEEE 754 double: a finite double is given by its
    rational value, and the type \<open>number\<close> adds the two infinities and \<open>NaN\<close>. The arithmetic
    of \<open>Money\<close> rounds every result to the nearest double, ties to even, and overflows to
    an infinity, as the source's \<open>*\<close>, \<open>+\<close>, \<open>-\<close> and \<open>/\<close> do; the sign of a zero is not
    modelled. A number stored in an object after the check \<open>Number.isInteger\<close> is an
    \<open>int\<close>. \<open>Quantity.from\<close> is modelled on finite arguments, and the sum of two
    quantities, which is below \<open>2^53\<close> for objects of the class, is exact.
  \<^item> Free text that the code inspects (\<open>userId\<close>, \<open>productName\<close>: \<open>trim\<close>, \<open>length\<close>) is a
    list of UTF-16 code units; identifiers, messages and error codes, which the code only
    copies and compares, are \<open>string\<close>s.
  \<^item> The environment is a parameter: \<open>new Date()\<close> is the argument \<open>now\<close> (milliseconds),
    \<open>CartId.generate()\<close> is the argument \<open>newId\<close>.
  \<^item> Objects are immutable in the source (every mutator builds a new object), so a method
    is a function of the receiver and the receiver is never changed by a call.
\<close>

subsection \<open>types/cart.types.ts\<close>

datatype CartStatus = ACTIVE | ABANDONED | CHECKED_OUT

datatype Currency = EUR | USD | GBP

definition MAX_CART_ITEMS :: nat where
  "MAX_CART_ITEMS = 100"

definition MAX_ITEM_QUANTITY :: rat where
  "MAX_ITEM_QUANTITY = 999"

definition DEFAULT_CURRENCY :: Currency where
  "DEFAULT_CURRENCY = EUR"

definition SUPPORTED_CURRENCIES :: "Currency list" where
  "SUPPORTED_CURRENCIES = [EUR, USD, GBP]"

text \<open>The string a value of the union types is at run time.\<close>

fun Currency_string :: "Currency \<Rightarrow> string" where
  "Currency_string EUR = ''EUR''"
| "Currency_string USD = ''USD''"
| "Currency_string GBP = ''GBP''"

fun CartStatus_string :: "CartStatus \<Rightarrow> string" where
  "CartStatus_string ACTIVE = ''ACTIVE''"
| "CartStatus_string ABANDONED = ''ABANDONED''"
| "CartStatus_string CHECKED_OUT = ''CHECKED_OUT''"

subsection \<open>JavaScript strings and numbers\<close>

type_synonym jsstring = "nat list"

type_synonym Date = int

definition str :: "string \<Rightarrow> jsstring" where
  "str s = map of_char s"

text \<open>
  \<open>String.prototype.trim\<close> removes WhiteSpace and LineTerminator code points from both
  ends: TAB, LF, VT, FF, CR, SP, NBSP, U+1680, U+2000..U+200A, U+2028, U+2029, U+202F,
  U+205F, U+3000 and U+FEFF.
\<close>

definition isWhiteSpace :: "nat \<Rightarrow> bool" where
  "isWhiteSpace c \<longleftrightarrow>
     c \<in> set [9, 10, 11, 12, 13, 32, 160, 5760, 8232, 8233, 8239, 8287, 12288, 65279]
     \<or> (8192 \<le> c \<and> c \<le> 8202)"

definition trim :: "jsstring \<Rightarrow> jsstring" where
  "trim s = rev (dropWhile isWhiteSpace (rev (dropWhile isWhiteSpace s)))"

text \<open>
  IEEE 754 binary64. \<open>ilog2 a\<close> is the floor of the binary logarithm of a positive
  rational; \<open>double_round x\<close> is the double nearest to \<open>x\<close>, a tie going to the even
  significand (53 bits, least exponent \<open>-1074\<close>), and an infinity from \<open>2^1024\<close> on.
\<close>

datatype number = Finite rat | Infinity | NegInfinity | NaN

definition ilog2 :: "rat \<Rightarrow> int" where
  "ilog2 a = (if 1 \<le> a then bitlen \<lfloor>a\<rfloor> - 1 else - bitlen (\<lceil>1 / a\<rceil> - 1))"

definition round_half_even :: "rat \<Rightarrow> int" where
  "round_half_even x =
     (let f = \<lfloor>x\<rfloor>; r = x - of_int f
      in if r < 1 / 2 then f else if 1 / 2 < r then f + 1 else if even f then f else f + 1)"

definition double_round :: "rat \<Rightarrow> number" where
  "double_round x =
     (if x = 0 then Finite 0
      else (let a = \<bar>x\<bar>;
                e = max (ilog2 a - 52) (- 1074);
                v = of_int (round_half_even (a / 2 powi e)) * 2 powi e
            in if 2 powi 1024 \<le> v then (if x < 0 then NegInfinity else Infinity)
               else Finite (if x < 0 then - v else v)))"

text \<open>The value of a decimal literal of the source text, such as \<open>29.99\<close>.\<close>

definition Number_literal :: "rat \<Rightarrow> number" where
  "Number_literal d = double_round d"

text \<open>\<open>Number.MAX_SAFE_INTEGER\<close>, that is \<open>2^53 - 1\<close>.\<close>

definition MAX_SAFE_INTEGER :: int where
  "MAX_SAFE_INTEGER = 9007199254740991"

text \<open>The operators \<open>*\<close>, \<open>+\<close>, unary and binary \<open>-\<close>, and \<open><\<close> on numbers.\<close>

fun number_times :: "number \<Rightarrow> number \<Rightarrow> number" where
  "number_times (Finite a) (Finite b) = double_round (a * b)"
| "number_times NaN y = NaN"
| "number_times x NaN = NaN"
| "number_times (Finite a) Infinity =
     (if a = 0 then NaN else if 0 < a then Infinity else NegInfinity)"
| "number_times (Finite a) NegInfinity =
     (if a = 0 then NaN else if 0 < a then NegInfinity else Infinity)"
| "number_times Infinity (Finite b) =
     (if b = 0 then NaN else if 0 < b then Infinity else NegInfinity)"
| "number_times NegInfinity (Finite b) =
     (if b = 0 then NaN else if 0 < b then NegInfinity else Infinity)"
| "number_times Infinity Infinity = Infinity"
| "number_times Infinity NegInfinity = NegInfinity"
| "number_times NegInfinity Infinity = NegInfinity"
| "number_times NegInfinity NegInfinity = Infinity"

fun number_plus :: "number \<Rightarrow> number \<Rightarrow> number" where
  "number_plus (Finite a) (Finite b) = double_round (a + b)"
| "number_plus NaN y = NaN"
| "number_plus x NaN = NaN"
| "number_plus Infinity NegInfinity = NaN"
| "number_plus NegInfinity Infinity = NaN"
| "number_plus Infinity y = Infinity"
| "number_plus NegInfinity y = NegInfinity"
| "number_plus (Finite a) y = y"

fun number_negate :: "number \<Rightarrow> number" where
  "number_negate (Finite a) = Finite (- a)"
| "number_negate Infinity = NegInfinity"
| "number_negate NegInfinity = Infinity"
| "number_negate NaN = NaN"

definition number_minus :: "number \<Rightarrow> number \<Rightarrow> number" where
  "number_minus x y = number_plus x (number_negate y)"

fun number_less :: "number \<Rightarrow> number \<Rightarrow> bool" where
  "number_less (Finite a) (Finite b) \<longleftrightarrow> a < b"
| "number_less NaN y \<longleftrightarrow> False"
| "number_less x NaN \<longleftrightarrow> False"
| "number_less x NegInfinity \<longleftrightarrow> False"
| "number_less Infinity y \<longleftrightarrow> False"
| "number_less NegInfinity y \<longleftrightarrow> True"
| "number_less (Finite a) Infinity \<longleftrightarrow> True"

text \<open>The quotient \<open>x / d\<close> by a finite double \<open>d\<close> other than zero (the source divides only
  by \<open>100\<close>).\<close>

fun number_divide :: "number \<Rightarrow> rat \<Rightarrow> number" where
  "number_divide (Finite a) d = double_round (a / d)"
| "number_divide Infinity d = (if 0 < d then Infinity else NegInfinity)"
| "number_divide NegInfinity d = (if 0 < d then NegInfinity else Infinity)"
| "number_divide NaN d = NaN"

definition Number_isInteger :: "rat \<Rightarrow> bool" where
  "Number_isInteger x \<longleftrightarrow> of_int \<lfloor>x\<rfloor> = x"

text \<open>\<open>Math.round\<close>: the nearest integer, a tie going towards plus infinity.\<close>

definition Math_round :: "rat \<Rightarrow> int" where
  "Math_round x = \<lfloor>x + 1 / 2\<rfloor>"

text \<open>\<open>Number.isInteger\<close> and \<open>Math.round\<close> on any number: an infinity and \<open>NaN\<close> are not
  integers, and \<open>Math.round\<close> returns them as they are.\<close>

fun Number_isInteger_number :: "number \<Rightarrow> bool" where
  "Number_isInteger_number (Finite x) \<longleftrightarrow> Number_isInteger x"
| "Number_isInteger_number x \<longleftrightarrow> False"

fun Math_round_number :: "number \<Rightarrow> number" where
  "Math_round_number (Finite x) = Finite (of_int (Math_round x))"
| "Math_round_number x = x"

text \<open>\<open>Array.prototype.findIndex\<close>: the first index whose element passes, or \<open>-1\<close>.\<close>

fun findIndex :: "('a \<Rightarrow> bool) \<Rightarrow> 'a list \<Rightarrow> int" where
  "findIndex P [] = - 1"
| "findIndex P (x # xs) =
     (if P x then 0 else (let r = findIndex P xs in if r < 0 then - 1 else r + 1))"

text \<open>\<open>Array.prototype.slice(start, end)\<close> for \<open>0 \<le> start\<close> and \<open>0 \<le> end\<close>.\<close>

definition slice :: "'a list \<Rightarrow> nat \<Rightarrow> nat \<Rightarrow> 'a list" where
  "slice xs start end' = take (end' - start) (drop start xs)"

definition slice_from :: "'a list \<Rightarrow> nat \<Rightarrow> 'a list" where
  "slice_from xs start = drop start xs"

subsection \<open>errors/domain.error.ts and errors/cart.errors.ts\<close>

datatype ctxval =
    VStr string
  | VText jsstring
  | VNum number
  | VStrs "string list"
  | VMoney number string

type_synonym ctx = "(string \<times> ctxval) list"

text \<open>
  One constructor for each subclass of \<open>DomainError\<close>, holding the arguments of its
  constructor, and \<open>Error\<close> for a plain JavaScript \<open>Error\<close> with its message.
\<close>

datatype error =
    CartNotFoundError string
  | InvalidCartError string "ctx option"
  | InvalidCartItemError string "ctx option"
  | InvalidQuantityError rat
  | InvalidMoneyError number string
  | MaxCartItemsExceededError nat
  | CartNotActiveError string string
  | ProductNotFoundError string
  | InvalidProductError string "ctx option"
  | ProductNotActiveError string
  | Error string

text \<open>The field \<open>code\<close> that the constructor of each subclass passes to \<open>DomainError\<close>;
  a plain \<open>Error\<close> has no such field.\<close>

fun DomainError_code :: "error \<Rightarrow> string option" where
  "DomainError_code (CartNotFoundError cartId) = Some ''CART_NOT_FOUND''"
| "DomainError_code (InvalidCartError message c) = Some ''INVALID_CART''"
| "DomainError_code (InvalidCartItemError message c) = Some ''INVALID_CART_ITEM''"
| "DomainError_code (InvalidQuantityError q) = Some ''INVALID_QUANTITY''"
| "DomainError_code (InvalidMoneyError a cur) = Some ''INVALID_MONEY''"
| "DomainError_code (MaxCartItemsExceededError maxItems) = Some ''MAX_CART_ITEMS_EXCEEDED''"
| "DomainError_code (CartNotActiveError cartId st) = Some ''CART_NOT_ACTIVE''"
| "DomainError_code (ProductNotFoundError productId) = Some ''PRODUCT_NOT_FOUND''"
| "DomainError_code (InvalidProductError message c) = Some ''INVALID_PRODUCT''"
| "DomainError_code (ProductNotActiveError productId) = Some ''PRODUCT_NOT_ACTIVE''"
| "DomainError_code (Error message) = None"

text \<open>The field \<open>context\<close>; \<open>None\<close> is \<open>undefined\<close>.\<close>

fun DomainError_context :: "error \<Rightarrow> ctx option" where
  "DomainError_context (CartNotFoundError cartId) = Some [(''cartId'', VStr cartId)]"
| "DomainError_context (InvalidCartError message c) = c"
| "DomainError_context (InvalidCartItemError message c) = c"
| "DomainError_context (InvalidQuantityError q) = Some [(''quantity'', VNum (Finite q))]"
| "DomainError_context (InvalidMoneyError a cur) =
     Some [(''amount'', VNum a), (''currency'', VStr cur)]"
| "DomainError_context (MaxCartItemsExceededError maxItems) =
     Some [(''maxItems'', VNum (Finite (of_nat maxItems)))]"
| "DomainError_context (CartNotActiveError cartId st) =
     Some [(''cartId'', VStr cartId), (''status'', VStr st)]"
| "DomainError_context (ProductNotFoundError productId) = Some [(''productId'', VStr productId)]"
| "DomainError_context (InvalidProductError message c) = c"
| "DomainError_context (ProductNotActiveError productId) =
     Some [(''productId'', VStr productId)]"
| "DomainError_context (Error message) = None"

subsection \<open>value-objects/money.vo.ts\<close>

record Money =
  amountInCents :: int
  currency :: Currency

definition Money_validate :: "number \<Rightarrow> Currency \<Rightarrow> error option" where
  "Money_validate cents cur =
     (if \<not> Number_isInteger_number cents
      then Some (InvalidMoneyError (number_divide cents 100) (Currency_string cur))
      else if number_less cents (Finite 0)
      then Some (InvalidMoneyError (number_divide cents 100) (Currency_string cur))
      else if cur \<notin> set SUPPORTED_CURRENCIES
      then Some (InvalidMoneyError (number_divide cents 100) (Currency_string cur))
      else None)"

text \<open>The private constructor: it stores the amount and validates it. A number that
  passes the validation is a finite integer.\<close>

definition new_Money :: "number \<Rightarrow> Currency \<Rightarrow> error + Money" where
  "new_Money cents cur =
     (case Money_validate cents cur of
        Some e \<Rightarrow> Inl e
      | None \<Rightarrow>
          Inr \<lparr>amountInCents = (case cents of Finite x \<Rightarrow> \<lfloor>x\<rfloor> | _ \<Rightarrow> 0), currency = cur\<rparr>)"

definition Money_from :: "number \<Rightarrow> Currency \<Rightarrow> error + Money" where
  "Money_from amount cur =
     (let cents = Math_round_number (number_times amount (Finite 100))
      in new_Money cents cur)"

definition Money_fromCents :: "number \<Rightarrow> Currency \<Rightarrow> error + Money" where
  "Money_fromCents cents cur = new_Money cents cur"

definition Money_zero :: "Currency \<Rightarrow> error + Money" where
  "Money_zero cur = new_Money (Finite 0) cur"

definition Money_amount :: "Money \<Rightarrow> number" where
  "Money_amount this = number_divide (Finite (of_int (amountInCents this))) 100"

definition ensureSameCurrency :: "Money \<Rightarrow> Money \<Rightarrow> error option" where
  "ensureSameCurrency this other =
     (if currency this \<noteq> currency other
      then Some (Error (''Cannot operate on different currencies: ''
                  @ Currency_string (currency this) @ '' and ''
                  @ Currency_string (currency other)))
      else None)"

definition Money_add :: "Money \<Rightarrow> Money \<Rightarrow> error + Money" where
  "Money_add this other =
     (case ensureSameCurrency this other of
        Some e \<Rightarrow> Inl e
      | None \<Rightarrow>
          Money_fromCents
            (number_plus (Finite (of_int (amountInCents this)))
               (Finite (of_int (amountInCents other))))
            (currency this))"

definition Money_subtract :: "Money \<Rightarrow> Money \<Rightarrow> error + Money" where
  "Money_subtract this other =
     (case ensureSameCurrency this other of
        Some e \<Rightarrow> Inl e
      | None \<Rightarrow>
          Money_fromCents
            (number_minus (Finite (of_int (amountInCents this)))
               (Finite (of_int (amountInCents other))))
            (currency this))"

definition Money_multiply :: "Money \<Rightarrow> number \<Rightarrow> error + Money" where
  "Money_multiply this factor =
     (let result = Math_round_number (number_times (Finite (of_int (amountInCents this))) factor)
      in Money_fromCents result (currency this))"

definition Money_isGreaterThan :: "Money \<Rightarrow> Money \<Rightarrow> error + bool" where
  "Money_isGreaterThan this other =
     (case ensureSameCurrency this other of
        Some e \<Rightarrow> Inl e
      | None \<Rightarrow> Inr (amountInCents this > amountInCents other))"

definition Money_isLessThan :: "Money \<Rightarrow> Money \<Rightarrow> error + bool" where
  "Money_isLessThan this other =
     (case ensureSameCurrency this other of
        Some e \<Rightarrow> Inl e
      | None \<Rightarrow> Inr (amountInCents this < amountInCents other))"

definition Money_isZero :: "Money \<Rightarrow> bool" where
  "Money_isZero this \<longleftrightarrow> amountInCents this = 0"

definition Money_equals :: "Money \<Rightarrow> Money \<Rightarrow> bool" where
  "Money_equals this other \<longleftrightarrow>
     amountInCents this = amountInCents other \<and> currency this = currency other"

text \<open>\<open>toJSON()\<close>: the pair of \<open>amount\<close> and the currency string.\<close>

definition Money_toJSON :: "Money \<Rightarrow> ctxval" where
  "Money_toJSON this = VMoney (Money_amount this) (Currency_string (currency this))"

subsection \<open>value-objects/quantity.vo.ts\<close>

datatype Quantity = Quantity (Quantity_value: int)

definition Quantity_validate :: "rat \<Rightarrow> error option" where
  "Quantity_validate v =
     (if \<not> Number_isInteger v then Some (InvalidQuantityError v)
      else if v \<le> 0 then Some (InvalidQuantityError v)
      else if v > MAX_ITEM_QUANTITY then Some (InvalidQuantityError v)
      else None)"

definition Quantity_from :: "rat \<Rightarrow> error + Quantity" where
  "Quantity_from v =
     (case Quantity_validate v of
        Some e \<Rightarrow> Inl e
      | None \<Rightarrow> Inr (Quantity \<lfloor>v\<rfloor>))"

definition Quantity_add :: "Quantity \<Rightarrow> Quantity \<Rightarrow> error + Quantity" where
  "Quantity_add this other =
     Quantity_from (of_int (Quantity_value this + Quantity_value other))"

definition Quantity_subtract :: "Quantity \<Rightarrow> Quantity \<Rightarrow> error + Quantity" where
  "Quantity_subtract this other =
     Quantity_from (of_int (Quantity_value this - Quantity_value other))"

subsection \<open>value-objects/cart-id.vo.ts and product-id.vo.ts\<close>

datatype CartId = CartId (CartId_value: string)

datatype ProductId = ProductId (ProductId_value: string)

definition ProductId_equals :: "ProductId \<Rightarrow> ProductId \<Rightarrow> bool" where
  "ProductId_equals this other \<longleftrightarrow> ProductId_value this = ProductId_value other"

subsection \<open>entities/cart-item.entity.ts\<close>

record CartItemProps =
  productId :: ProductId
  productName :: jsstring
  quantity :: Quantity
  unitPrice :: Money

text \<open>A \<open>CartItem\<close> object holds nothing but its \<open>props\<close>.\<close>

type_synonym CartItem = CartItemProps

definition CartItem_validate :: "CartItemProps \<Rightarrow> error option" where
  "CartItem_validate props =
     (if productName props = [] \<or> length (trim (productName props)) = 0
      then Some (InvalidCartItemError ''Product name cannot be empty''
             (Some [(''productId'', VStr (ProductId_value (productId props)))]))
      else if length (productName props) > 200
      then Some (InvalidCartItemError ''Product name cannot exceed 200 characters''
             (Some [(''productId'', VStr (ProductId_value (productId props))),
                    (''productName'', VText (productName props))]))
      else if Money_isZero (unitPrice props)
      then Some (InvalidCartItemError ''Unit price must be greater than zero''
             (Some [(''productId'', VStr (ProductId_value (productId props))),
                    (''unitPrice'', Money_toJSON (unitPrice props))]))
      else None)"

definition new_CartItem :: "CartItemProps \<Rightarrow> error + CartItem" where
  "new_CartItem props =
     (case CartItem_validate props of Some e \<Rightarrow> Inl e | None \<Rightarrow> Inr props)"

definition CartItem_create :: "CartItemProps \<Rightarrow> error + CartItem" where
  "CartItem_create props = new_CartItem props"

definition lineTotal :: "CartItem \<Rightarrow> error + Money" where
  "lineTotal this =
     Money_multiply (unitPrice this) (Finite (of_int (Quantity_value (quantity this))))"

definition updateQuantity :: "CartItem \<Rightarrow> Quantity \<Rightarrow> error + CartItem" where
  "updateQuantity this newQuantity = CartItem_create (this\<lparr>quantity := newQuantity\<rparr>)"

definition increaseQuantity :: "CartItem \<Rightarrow> Quantity \<Rightarrow> error + CartItem" where
  "increaseQuantity this amount =
     (case Quantity_add (quantity this) amount of
        Inl e \<Rightarrow> Inl e
      | Inr newQuantity \<Rightarrow> updateQuantity this newQuantity)"

definition decreaseQuantity :: "CartItem \<Rightarrow> Quantity \<Rightarrow> error + CartItem" where
  "decreaseQuantity this amount =
     (case Quantity_subtract (quantity this) amount of
        Inl e \<Rightarrow> Inl e
      | Inr newQuantity \<Rightarrow> updateQuantity this newQuantity)"

subsection \<open>entities/cart.entity.ts\<close>

record CartProps =
  cartId :: CartId
  userId :: jsstring
  items :: "CartItem list"
  status :: CartStatus
  cartCurrency :: Currency
  createdAt :: Date
  updatedAt :: Date

text \<open>A \<open>Cart\<close> object holds nothing but its \<open>props\<close>; the field \<open>currency\<close> of the
  source is \<open>cartCurrency\<close> here, \<open>currency\<close> being the field of \<open>Money\<close>.\<close>

type_synonym Cart = CartProps

definition Cart_validate :: "CartProps \<Rightarrow> error option" where
  "Cart_validate props =
     (if userId props = [] \<or> length (trim (userId props)) = 0
      then Some (InvalidCartError ''User ID is required''
             (Some [(''cartId'', VStr (CartId_value (cartId props)))]))
      else if length (items props) > MAX_CART_ITEMS
      then Some (InvalidCartError ''Cart cannot have more than 100 items''
             (Some [(''cartId'', VStr (CartId_value (cartId props))),
                    (''itemCount'', VNum (Finite (of_nat (length (items props)))))]))
      else (let invalidItems =
                  filter (\<lambda>item. currency (unitPrice item) \<noteq> cartCurrency props) (items props)
            in if length invalidItems > 0
               then Some (InvalidCartError ''All items must have the same currency as the cart''
                      (Some [(''cartId'', VStr (CartId_value (cartId props))),
                             (''cartCurrency'', VStr (Currency_string (cartCurrency props))),
                             (''invalidItems'',
                                VStrs (map (\<lambda>item. ProductId_value (productId item))
                                         invalidItems))]))
               else None))"

definition new_Cart :: "CartProps \<Rightarrow> error + Cart" where
  "new_Cart props = (case Cart_validate props of Some e \<Rightarrow> Inl e | None \<Rightarrow> Inr props)"

definition Cart_create :: "CartId \<Rightarrow> Date \<Rightarrow> jsstring \<Rightarrow> Currency option \<Rightarrow> error + Cart" where
  "Cart_create newId now uid cur =
     new_Cart \<lparr>cartId = newId, userId = uid, items = [], status = ACTIVE,
               cartCurrency = (case cur of Some c \<Rightarrow> c | None \<Rightarrow> DEFAULT_CURRENCY),
               createdAt = now, updatedAt = now\<rparr>"

definition fromProps :: "CartProps \<Rightarrow> error + Cart" where
  "fromProps props = new_Cart props"

text \<open>The reducer of \<open>total\<close>, its accumulator \<open>sum\<close> written \<open>acc\<close>: \<open>item.lineTotal\<close> is
  evaluated, then \<open>sum.add\<close>.\<close>

fun total_reduce :: "Money \<Rightarrow> CartItem list \<Rightarrow> error + Money" where
  "total_reduce acc [] = Inr acc"
| "total_reduce acc (item # rest) =
     (case lineTotal item of
        Inl e \<Rightarrow> Inl e
      | Inr lt \<Rightarrow>
          (case Money_add acc lt of
             Inl e \<Rightarrow> Inl e
           | Inr acc' \<Rightarrow> total_reduce acc' rest))"

text \<open>The getter \<open>total\<close>.\<close>

definition Cart_total :: "Cart \<Rightarrow> error + Money" where
  "Cart_total this =
     (if length (items this) = 0 then Money_zero (cartCurrency this)
      else (case Money_zero (cartCurrency this) of
              Inl e \<Rightarrow> Inl e
            | Inr z \<Rightarrow> total_reduce z (items this)))"

text \<open>The getter \<open>itemCount\<close>; a cart holds at most 100 quantities of at most 999 each, so
  the sum of doubles is the sum of integers.\<close>

definition itemCount :: "Cart \<Rightarrow> int" where
  "itemCount this = foldl (\<lambda>acc item. acc + Quantity_value (quantity item)) 0 (items this)"

definition isEmpty :: "Cart \<Rightarrow> bool" where
  "isEmpty this \<longleftrightarrow> length (items this) = 0"

definition isActive :: "Cart \<Rightarrow> bool" where
  "isActive this \<longleftrightarrow> status this = ACTIVE"

definition ensureActive :: "Cart \<Rightarrow> error option" where
  "ensureActive this =
     (if \<not> isActive this
      then Some (CartNotActiveError (CartId_value (cartId this)) (CartStatus_string (status this)))
      else None)"

definition withUpdatedItems :: "Cart \<Rightarrow> CartItem list \<Rightarrow> Date \<Rightarrow> error + Cart" where
  "withUpdatedItems this newItems now = new_Cart (this\<lparr>items := newItems, updatedAt := now\<rparr>)"

definition addItem :: "Cart \<Rightarrow> CartItemProps \<Rightarrow> Date \<Rightarrow> error + Cart" where
  "addItem this itemProps now =
     (case ensureActive this of
        Some e \<Rightarrow> Inl e
      | None \<Rightarrow>
          if currency (unitPrice itemProps) \<noteq> cartCurrency this
          then Inl (InvalidCartError ''Item currency must match cart currency''
                 (Some [(''cartId'', VStr (CartId_value (cartId this))),
                        (''cartCurrency'', VStr (Currency_string (cartCurrency this))),
                        (''itemCurrency'',
                           VStr (Currency_string (currency (unitPrice itemProps))))]))
          else
            (case CartItem_create itemProps of
               Inl e \<Rightarrow> Inl e
             | Inr newItem \<Rightarrow>
                 (let existingItemIndex =
                        findIndex (\<lambda>item. ProductId_equals (productId item) (productId newItem))
                          (items this)
                  in if existingItemIndex \<ge> 0
                     then
                       (let existingItem = items this ! nat existingItemIndex
                        in case increaseQuantity existingItem (quantity newItem) of
                             Inl e \<Rightarrow> Inl e
                           | Inr mergedItem \<Rightarrow>
                               withUpdatedItems this
                                 (slice (items this) 0 (nat existingItemIndex)
                                  @ [mergedItem]
                                  @ slice_from (items this) (nat (existingItemIndex + 1)))
                                 now)
                     else if length (items this) \<ge> MAX_CART_ITEMS
                     then Inl (MaxCartItemsExceededError MAX_CART_ITEMS)
                     else withUpdatedItems this (items this @ [newItem]) now)))"

definition removeItem :: "Cart \<Rightarrow> ProductId \<Rightarrow> Date \<Rightarrow> error + Cart" where
  "removeItem this pid now =
     (case ensureActive this of
        Some e \<Rightarrow> Inl e
      | None \<Rightarrow>
          (let itemIndex = findIndex (\<lambda>item. ProductId_equals (productId item) pid) (items this)
           in if itemIndex = - 1
              then Inl (InvalidCartError ''Item not found in cart''
                     (Some [(''cartId'', VStr (CartId_value (cartId this))),
                            (''productId'', VStr (ProductId_value pid))]))
              else withUpdatedItems this
                     (slice (items this) 0 (nat itemIndex)
                      @ slice_from (items this) (nat (itemIndex + 1)))
                     now))"

definition updateItemQuantity :: "Cart \<Rightarrow> ProductId \<Rightarrow> Quantity \<Rightarrow> Date \<Rightarrow> error + Cart" where
  "updateItemQuantity this pid newQuantity now =
     (case ensureActive this of
        Some e \<Rightarrow> Inl e
      | None \<Rightarrow>
          (let itemIndex = findIndex (\<lambda>item. ProductId_equals (productId item) pid) (items this)
           in if itemIndex = - 1
              then Inl (InvalidCartError ''Item not found in cart''
                     (Some [(''cartId'', VStr (CartId_value (cartId this))),
                            (''productId'', VStr (ProductId_value pid))]))
              else
                (case updateQuantity (items this ! nat itemIndex) newQuantity of
                   Inl e \<Rightarrow> Inl e
                 | Inr updatedItem \<Rightarrow>
                     withUpdatedItems this
                       (slice (items this) 0 (nat itemIndex)
                        @ [updatedItem]
                        @ slice_from (items this) (nat (itemIndex + 1)))
                       now)))"

definition clearItems :: "Cart \<Rightarrow> Date \<Rightarrow> error + Cart" where
  "clearItems this now =
     (case ensureActive this of
        Some e \<Rightarrow> Inl e
      | None \<Rightarrow> withUpdatedItems this [] now)"

definition abandon :: "Cart \<Rightarrow> Date \<Rightarrow> error + Cart" where
  "abandon this now = new_Cart (this\<lparr>status := ABANDONED, updatedAt := now\<rparr>)"

definition checkout :: "Cart \<Rightarrow> Date \<Rightarrow> error + Cart" where
  "checkout this now =
     (if isEmpty this
      then Inl (InvalidCartError ''Cannot checkout empty cart''
             (Some [(''cartId'', VStr (CartId_value (cartId this)))]))
      else new_Cart (this\<lparr>status := CHECKED_OUT, updatedAt := now\<rparr>))"

subsection \<open>Instances of the classes\<close>

text \<open>
  The constructors are private and validate, so an object of a class is a value its
  constructor accepted, whose fields are objects of their classes in turn.
\<close>

definition is_Quantity :: "Quantity \<Rightarrow> bool" where
  "is_Quantity q \<longleftrightarrow> Quantity_validate (of_int (Quantity_value q)) = None"

definition is_Money :: "Money \<Rightarrow> bool" where
  "is_Money m \<longleftrightarrow> Money_validate (Finite (of_int (amountInCents m))) (currency m) = None"

definition is_CartItem :: "CartItem \<Rightarrow> bool" where
  "is_CartItem i \<longleftrightarrow>
     is_Quantity (quantity i) \<and> is_Money (unitPrice i) \<and> CartItem_validate i = None"

definition is_Cart :: "Cart \<Rightarrow> bool" where
  "is_Cart c \<longleftrightarrow> list_all is_CartItem (items c) \<and> Cart_validate c = None"

subsection \<open>The aggregate invariant and example values\<close>

text \<open>
  The invariant of the aggregate in the words of the specification: at most 100 line
  items (\<open>items.length\<close>, not the sum of the quantities), every unit price in the currency
  of the cart, and a user id with a character that is not white space.
\<close>

definition cart_invariant :: "Cart \<Rightarrow> bool" where
  "cart_invariant c \<longleftrightarrow>
     length (items c) \<le> 100
     \<and> (\<forall>i \<in> set (items c). currency (unitPrice i) = cartCurrency c)
     \<and> (\<exists>ch \<in> set (userId c). \<not> isWhiteSpace ch)"

text \<open>Values used to instantiate the theorems below.\<close>

definition ex_id :: CartId where
  "ex_id = CartId ''123e4567-e89b-42d3-a456-426614174000''"

definition ex_item :: "ProductId \<Rightarrow> int \<Rightarrow> int \<Rightarrow> Currency \<Rightarrow> CartItemProps" where
  "ex_item pid q cents cur =
     \<lparr>productId = pid, productName = str ''Blue Widget'', quantity = Quantity q,
      unitPrice = \<lparr>amountInCents = cents, currency = cur\<rparr>\<rparr>"

definition ex_cart :: "CartItem list \<Rightarrow> CartStatus \<Rightarrow> Cart" where
  "ex_cart its st =
     \<lparr>cartId = ex_id, userId = str ''user-123'', items = its, status = st,
      cartCurrency = EUR, createdAt = 0, updatedAt = 0\<rparr>"

text \<open>Product ids \<open>PROD-00\<close> to \<open>PROD-99\<close> and a cart of \<open>n\<close> lines of one unit at 1.00 EUR.\<close>

definition ex_pid :: "nat \<Rightarrow> ProductId" where
  "ex_pid k = ProductId (''PROD-'' @ [char_of (48 + k div 10), char_of (48 + k mod 10)])"

definition ex_full :: "nat \<Rightarrow> Cart" where
  "ex_full n = ex_cart (map (\<lambda>k. ex_item (ex_pid k) 1 100 EUR) [0..<n]) ACTIVE"

text \<open>
  The scenario "basic total" of the specification: create a cart in EUR, add PROD-001
  with quantity 2 at 29.99, then PROD-002 with quantity 1 at 15.50, the prices being
  the doubles that these literals denote. The user id, the product names, the generated
  id and the three clock readings are parameters.
\<close>

definition basic_total_scenario ::
  "CartId \<Rightarrow> jsstring \<Rightarrow> jsstring \<Rightarrow> jsstring \<Rightarrow> Date \<Rightarrow> Date \<Rightarrow> Date \<Rightarrow> error + Cart" where
  "basic_total_scenario newId uid name1 name2 t0 t1 t2 =
     (case Cart_create newId t0 uid (Some EUR) of
        Inl e \<Rightarrow> Inl e
      | Inr cart0 \<Rightarrow>
     (case Quantity_from 2 of
        Inl e \<Rightarrow> Inl e
      | Inr q1 \<Rightarrow>
     (case Money_from (Number_literal (2999 / 100)) EUR of
        Inl e \<Rightarrow> Inl e
      | Inr p1 \<Rightarrow>
     (case addItem cart0 \<lparr>productId = ProductId ''PROD-001'', productName = name1,
                          quantity = q1, unitPrice = p1\<rparr> t1 of
        Inl e \<Rightarrow> Inl e
      | Inr cart1 \<Rightarrow>
     (case Quantity_from 1 of
        Inl e \<Rightarrow> Inl e
      | Inr q2 \<Rightarrow>
     (case Money_from (Number_literal (1550 / 100)) EUR of
        Inl e \<Rightarrow> Inl e
      | Inr p2 \<Rightarrow>
          addItem cart1 \<lparr>productId = ProductId ''PROD-002'', productName = name2,
                         quantity = q2, unitPrice = p2\<rparr> t2))))))"

section \<open>Basic facts about the model\<close>

lemma round_half_even_of_int: "round_half_even (of_int n) = n"
  by (simp add: round_half_even_def)

lemma bitlen_eqI: "2 ^ k \<le> x \<Longrightarrow> x < 2 ^ Suc k \<Longrightarrow> bitlen x = int k + 1"
  using bitlen_twopow_add_eq [of "x - 2 ^ k" k] by simp

lemma double_round_ge1:
  assumes "2 ^ k \<le> \<lfloor>a\<rfloor>" and "\<lfloor>a\<rfloor> < 2 ^ Suc k"
    and "round_half_even (a / 2 powi (int k - 52)) = m"
    and "of_int m * 2 powi (int k - 52) < (2 powi 1024 :: rat)"
  shows "double_round a = Finite (of_int m * 2 powi (int k - 52))"
proof -
  have "1 \<le> \<lfloor>a\<rfloor>"
    using assms(1) one_le_power [of "2 :: int" k] by linarith
  then have a1: "1 \<le> a" by linarith
  have "ilog2 a = int k"
    using a1 bitlen_eqI [OF assms(1) assms(2)] by (simp add: ilog2_def)
  then have e: "max (ilog2 a - 52) (- 1074) = int k - 52"
    by simp
  show ?thesis
    using a1 assms(3) assms(4) by (simp add: double_round_def e Let_def)
qed

lemma round_half_even_eqI:
  assumes "of_int m - 1 / 2 < x" and "x < of_int m + 1 / 2"
  shows "round_half_even x = m"
proof -
  have "\<lfloor>x\<rfloor> = m \<or> \<lfloor>x\<rfloor> = m - 1"
    using assms by linarith
  then show ?thesis
  proof
    assume f: "\<lfloor>x\<rfloor> = m"
    then have "x - of_int \<lfloor>x\<rfloor> < 1 / 2" using assms by simp
    then show ?thesis using f by (simp add: round_half_even_def Let_def)
  next
    assume f: "\<lfloor>x\<rfloor> = m - 1"
    then have "1 / 2 < x - of_int \<lfloor>x\<rfloor>" using assms by simp
    then show ?thesis using f by (simp add: round_half_even_def Let_def)
  qed
qed

lemma double_round_safe:
  assumes "0 \<le> n" and "n < 2 ^ 53"
  shows "double_round (of_int n) = Finite (of_int n)"
proof (cases "n = 0")
  case True
  then show ?thesis by (simp add: double_round_def)
next
  case False
  let ?a = "of_int n :: rat"
  have pos: "1 \<le> n" using False assms(1) by linarith
  then have a1: "1 \<le> ?a" by simp
  have ab: "\<bar>?a\<bar> = ?a" using assms(1) by simp
  have bl: "bitlen n \<le> 53"
    using assms(2) by (simp add: bitlen_le_iff_power)
  have bl1: "1 \<le> bitlen n"
    using pos by (simp add: bitlen_ge_iff_power)
  have "ilog2 ?a = bitlen \<lfloor>?a\<rfloor> - 1"
    using a1 by (simp only: ilog2_def if_True)
  then have il: "ilog2 ?a = bitlen n - 1"
    by (simp only: floor_of_int)
  define j where "j = nat (53 - bitlen n)"
  have e: "max (ilog2 ?a - 52) (- 1074) = - int j"
    unfolding il using bl bl1 by (simp add: j_def)
  have pw: "(2 :: rat) powi (- int j) = inverse (2 ^ j)"
    by (simp add: power_int_minus)
  have q: "?a / 2 powi (- int j) = of_int (n * 2 ^ j)"
    unfolding pw by (simp add: field_simps)
  have v: "of_int (round_half_even (?a / 2 powi (- int j))) * 2 powi (- int j) = ?a"
    unfolding q round_half_even_of_int unfolding pw by (simp add: field_simps)
  have "(2 :: int) ^ 53 \<le> 2 ^ 1024"
    by (rule power_increasing) simp_all
  with assms have "n < 2 ^ 1024" by linarith
  then have "?a < of_int (2 ^ 1024)"
    by (simp only: of_int_less_iff)
  then have lt: "\<not> (2 :: rat) powi 1024 \<le> ?a"
    by simp
  have nz: "?a \<noteq> 0" and nn: "\<not> ?a < 0" using pos by simp_all
  show ?thesis
    unfolding double_round_def Let_def ab e v using nz nn lt by (simp only: if_False)
qed

lemma double_round_safe_integer:
  "0 \<le> n \<Longrightarrow> n \<le> MAX_SAFE_INTEGER \<Longrightarrow> double_round (of_int n) = Finite (of_int n)"
  by (rule double_round_safe) (simp_all add: MAX_SAFE_INTEGER_def)

lemma literal_2999: "Number_literal (2999 / 100) = Finite (8441434551552573 / 2 ^ 48)"
  unfolding Number_literal_def
  by (subst double_round_ge1 [where k = 4 and m = 8441434551552573])
     (simp_all add: round_half_even_eqI)

lemma literal_2999_times_100: "double_round (8441434551552573 / 2 ^ 48 * 100) = Finite 2999"
  by (subst double_round_ge1 [where k = 11 and m = 6594870743400448])
     (simp_all add: round_half_even_eqI)

lemma literal_1550: "Number_literal (1550 / 100) = Finite (1550 / 100)"
  unfolding Number_literal_def
  by (subst double_round_ge1 [where k = 3 and m = 8725724278030336])
     (simp_all add: round_half_even_of_int [of 8725724278030336, simplified])

lemma double_round_3_max_safe: "double_round 27021597764222973 = Finite 27021597764222972"
  by (subst double_round_ge1 [where k = 54 and m = 6755399441055743])
     (simp_all add: round_half_even_eqI)

lemma double_round_27021597764222972:
  "double_round 27021597764222972 = Finite 27021597764222972"
  by (subst double_round_ge1 [where k = 54 and m = 6755399441055743])
     (simp_all add: round_half_even_of_int [of 6755399441055743, simplified])

lemma ProductId_equals_eq: "ProductId_equals a b \<longleftrightarrow> a = b"
  by (cases a, cases b) (simp add: ProductId_equals_def)

lemma Number_isInteger_of_int: "Number_isInteger (of_int n)"
  by (simp add: Number_isInteger_def)

lemma Math_round_of_int: "Math_round (of_int n) = n"
proof -
  have "\<lfloor>(of_int n :: rat) + 1 / 2\<rfloor> = n"
    by (rule floor_unique) simp_all
  then show ?thesis by (simp add: Math_round_def)
qed

lemma supported_all: "cur \<in> set SUPPORTED_CURRENCIES"
  by (cases cur) (simp_all add: SUPPORTED_CURRENCIES_def)

lemma Money_validate_of_int:
  "Money_validate (Finite (of_int n)) cur = None \<longleftrightarrow> 0 \<le> n"
  by (simp add: Money_validate_def Number_isInteger_of_int supported_all)

lemma is_Money_iff: "is_Money m \<longleftrightarrow> 0 \<le> amountInCents m"
  by (simp add: is_Money_def Money_validate_of_int)

lemma Money_fromCents_of_int:
  assumes "0 \<le> n"
  shows "Money_fromCents (Finite (of_int n)) cur = Inr \<lparr>amountInCents = n, currency = cur\<rparr>"
proof -
  have "Money_validate (Finite (of_int n)) cur = None"
    using assms by (simp add: Money_validate_of_int)
  then show ?thesis
    by (simp add: Money_fromCents_def new_Money_def)
qed

lemma Money_zero_eq: "Money_zero cur = Inr \<lparr>amountInCents = 0, currency = cur\<rparr>"
  using Money_fromCents_of_int [of 0 cur] by (simp add: Money_zero_def Money_fromCents_def)

lemma Quantity_validate_of_int:
  "Quantity_validate (of_int n) = None \<longleftrightarrow> 1 \<le> n \<and> n \<le> 999"
proof -
  have "(of_int n :: rat) \<le> 999 \<longleftrightarrow> n \<le> 999"
    using of_int_le_iff [of n 999, where ?'a = rat] by simp
  moreover have "(of_int n :: rat) \<le> 0 \<longleftrightarrow> n \<le> 0"
    by simp
  ultimately show ?thesis
    by (auto simp add: Quantity_validate_def Number_isInteger_of_int MAX_ITEM_QUANTITY_def
        not_less not_le)
qed

lemma is_Quantity_iff: "is_Quantity q \<longleftrightarrow> 1 \<le> Quantity_value q \<and> Quantity_value q \<le> 999"
  by (simp add: is_Quantity_def Quantity_validate_of_int)

lemma Quantity_from_of_int:
  "Quantity_from (of_int n) =
     (if 1 \<le> n \<and> n \<le> 999 then Inr (Quantity n) else Inl (InvalidQuantityError (of_int n)))"
proof (cases "1 \<le> n \<and> n \<le> 999")
  case True
  then have "Quantity_validate (of_int n) = None"
    by (simp add: Quantity_validate_of_int)
  with True show ?thesis by (simp add: Quantity_from_def)
next
  case False
  then have "Quantity_validate (of_int n) \<noteq> None"
    by (simp add: Quantity_validate_of_int)
  then have "Quantity_validate (of_int n) = Some (InvalidQuantityError (of_int n))"
    by (auto simp add: Quantity_validate_def split: if_splits)
  with False show ?thesis by (simp add: Quantity_from_def)
qed

lemma trim_blank: "length (trim s) = 0 \<longleftrightarrow> (\<forall>ch \<in> set s. isWhiteSpace ch)"
proof -
  have "dropWhile isWhiteSpace s = [] \<longleftrightarrow> (\<forall>ch \<in> set s. isWhiteSpace ch)"
    by (simp add: dropWhile_eq_Nil_conv)
  moreover have "(\<forall>ch \<in> set (dropWhile isWhiteSpace s). isWhiteSpace ch)
                  \<longleftrightarrow> dropWhile isWhiteSpace s = []"
  proof
    assume all: "\<forall>ch \<in> set (dropWhile isWhiteSpace s). isWhiteSpace ch"
    show "dropWhile isWhiteSpace s = []"
    proof (rule ccontr)
      assume ne: "dropWhile isWhiteSpace s \<noteq> []"
      then have "\<not> isWhiteSpace (hd (dropWhile isWhiteSpace s))"
        by (rule hd_dropWhile)
      moreover have "hd (dropWhile isWhiteSpace s) \<in> set (dropWhile isWhiteSpace s)"
        using ne by simp
      ultimately show False using all by blast
    qed
  next
    assume "dropWhile isWhiteSpace s = []"
    then show "\<forall>ch \<in> set (dropWhile isWhiteSpace s). isWhiteSpace ch"
      by (simp del: dropWhile_eq_Nil_conv)
  qed
  ultimately show ?thesis
    by (simp add: trim_def dropWhile_eq_Nil_conv)
qed

lemma blank_iff:
  "(s = [] \<or> length (trim s) = 0) \<longleftrightarrow> (\<forall>ch \<in> set s. isWhiteSpace ch)"
  using trim_blank [of s] by auto

lemma Cart_validate_None:
  "Cart_validate p = None \<longleftrightarrow>
     (\<exists>ch \<in> set (userId p). \<not> isWhiteSpace ch)
     \<and> length (items p) \<le> 100
     \<and> (\<forall>i \<in> set (items p). currency (unitPrice i) = cartCurrency p)"
proof -
  have "length (filter (\<lambda>item. currency (unitPrice item) \<noteq> cartCurrency p) (items p)) > 0
        \<longleftrightarrow> (\<exists>i \<in> set (items p). currency (unitPrice i) \<noteq> cartCurrency p)"
    by (simp add: filter_empty_conv)
  then show ?thesis
    using blank_iff [of "userId p"]
    by (auto simp add: Cart_validate_def MAX_CART_ITEMS_def Let_def simp del: length_0_conv length_greater_0_conv)
qed

lemma new_Cart_Inr: "new_Cart p = Inr c \<longleftrightarrow> Cart_validate p = None \<and> c = p"
  by (auto simp add: new_Cart_def split: option.splits)

lemma new_Cart_ok: "Cart_validate p = None \<Longrightarrow> new_Cart p = Inr p"
  by (simp add: new_Cart_def)

lemma CartItem_validate_None:
  "CartItem_validate p = None \<longleftrightarrow>
     (\<exists>ch \<in> set (productName p). \<not> isWhiteSpace ch)
     \<and> length (productName p) \<le> 200
     \<and> amountInCents (unitPrice p) \<noteq> 0"
  using blank_iff [of "productName p"]
  by (auto simp add: CartItem_validate_def Money_isZero_def simp del: length_0_conv)

lemma CartItem_validate_quantity:
  "CartItem_validate (p\<lparr>quantity := q\<rparr>) = CartItem_validate p"
  by (simp add: CartItem_validate_def)

lemma CartItem_create_ok: "CartItem_validate p = None \<Longrightarrow> CartItem_create p = Inr p"
  by (simp add: CartItem_create_def new_CartItem_def)

lemma ensureActive_None: "ensureActive c = None \<longleftrightarrow> status c = ACTIVE"
  by (simp add: ensureActive_def isActive_def)

lemma ensureActive_Some:
  "status c \<noteq> ACTIVE \<Longrightarrow>
   ensureActive c = Some (CartNotActiveError (CartId_value (cartId c)) (CartStatus_string (status c)))"
  by (simp add: ensureActive_def isActive_def)

lemma findIndex_ge: "- 1 \<le> findIndex P xs"
  by (induction xs) (auto simp add: Let_def)

lemma findIndex_neg_iff: "findIndex P xs < 0 \<longleftrightarrow> (\<forall>x \<in> set xs. \<not> P x)"
proof (induction xs)
  case Nil
  show ?case by simp
next
  case (Cons x xs)
  have "- 1 \<le> findIndex P xs" by (rule findIndex_ge)
  with Cons show ?case by (auto simp add: Let_def)
qed

lemma findIndex_minus1_iff: "findIndex P xs = - 1 \<longleftrightarrow> (\<forall>x \<in> set xs. \<not> P x)"
  using findIndex_neg_iff [of P xs] findIndex_ge [of P xs] by auto

lemma findIndex_first:
  "i < length xs \<Longrightarrow> P (xs ! i) \<Longrightarrow> (\<forall>j < i. \<not> P (xs ! j)) \<Longrightarrow> findIndex P xs = int i"
proof (induction xs arbitrary: i)
  case Nil
  then show ?case by simp
next
  case (Cons x xs)
  show ?case
  proof (cases i)
    case 0
    with Cons.prems show ?thesis by simp
  next
    case (Suc k)
    have nx: "\<not> P x"
      using Cons.prems(3) Suc by (metis nth_Cons_0 zero_less_Suc)
    have "\<forall>j < k. \<not> P (xs ! j)"
      using Cons.prems(3) Suc by (metis Suc_less_eq nth_Cons_Suc)
    moreover have "k < length xs" "P (xs ! k)"
      using Cons.prems(1,2) Suc by simp_all
    ultimately have "findIndex P xs = int k"
      using Cons.IH by blast
    with nx Suc show ?thesis by (simp add: Let_def)
  qed
qed

lemma findIndex_found:
  assumes "0 \<le> findIndex P xs"
  shows "nat (findIndex P xs) < length xs \<and> P (xs ! nat (findIndex P xs))
         \<and> (\<forall>j < nat (findIndex P xs). \<not> P (xs ! j))"
  using assms
proof (induction xs)
  case Nil
  then show ?case by simp
next
  case (Cons x xs)
  show ?case
  proof (cases "P x")
    case True
    then show ?thesis by simp
  next
    case False
    with Cons.prems have ge: "0 \<le> findIndex P xs"
      by (simp add: Let_def split: if_splits)
    then have eq: "findIndex P (x # xs) = findIndex P xs + 1"
      using False by (simp add: Let_def)
    have n: "nat (findIndex P xs + 1) = Suc (nat (findIndex P xs))"
      using ge by simp
    from Cons.IH [OF ge] False show ?thesis
      unfolding eq n by (auto simp add: nth_Cons split: nat.splits)
  qed
qed

lemma findIndex_distinct:
  assumes "distinct (map f xs)" and "i < length xs"
  shows "findIndex (\<lambda>x. f x = f (xs ! i)) xs = int i"
proof (rule findIndex_first)
  show "i < length xs" by fact
  show "f (xs ! i) = f (xs ! i)" by simp
  show "\<forall>j<i. f (xs ! j) \<noteq> f (xs ! i)"
    using assms by (auto simp add: distinct_conv_nth)
qed

lemma splice_update:
  "i < length xs \<Longrightarrow> slice xs 0 i @ [y] @ slice_from xs (i + 1) = xs[i := y]"
  by (simp add: slice_def slice_from_def upd_conv_take_nth_drop)

lemma Cart_validate_status:
  "Cart_validate (c\<lparr>status := s, updatedAt := t\<rparr>) = Cart_validate c"
  by (simp add: Cart_validate_def Let_def)

lemma cart_invariant_iff: "cart_invariant c \<longleftrightarrow> Cart_validate c = None"
  by (auto simp add: cart_invariant_def Cart_validate_None)

lemma new_Cart_invariant: "new_Cart p = Inr c \<Longrightarrow> cart_invariant c"
  by (simp add: new_Cart_Inr cart_invariant_iff)

lemma withUpdatedItems_invariant: "withUpdatedItems c0 its now = Inr c \<Longrightarrow> cart_invariant c"
  unfolding withUpdatedItems_def by (rule new_Cart_invariant)

lemma addItem_new:
  assumes v: "Cart_validate c = None" and act: "status c = ACTIVE"
    and cur: "currency (unitPrice p) = cartCurrency c"
    and pv: "CartItem_validate p = None"
    and fresh: "\<forall>i \<in> set (items c). productId i \<noteq> productId p"
  shows "addItem c p now =
           (if length (items c) \<ge> 100 then Inl (MaxCartItemsExceededError 100)
            else Inr (c\<lparr>items := items c @ [p], updatedAt := now\<rparr>))"
proof -
  have ea: "ensureActive c = None"
    using act by (simp add: ensureActive_None)
  have cr: "CartItem_create p = Inr p"
    using pv by (rule CartItem_create_ok)
  have fi: "findIndex (\<lambda>item. ProductId_equals (productId item) (productId p)) (items c) = - 1"
    using fresh by (simp add: findIndex_minus1_iff ProductId_equals_eq)
  show ?thesis
  proof (cases "length (items c) \<ge> 100")
    case True
    then show ?thesis
      by (simp add: addItem_def ea cur cr fi MAX_CART_ITEMS_def)
  next
    case False
    have "Cart_validate (c\<lparr>items := items c @ [p], updatedAt := now\<rparr>) = None"
      using v False cur by (auto simp add: Cart_validate_None)
    then have "withUpdatedItems c (items c @ [p]) now
                 = Inr (c\<lparr>items := items c @ [p], updatedAt := now\<rparr>)"
      by (simp add: withUpdatedItems_def new_Cart_ok)
    with False show ?thesis
      by (simp add: addItem_def ea cur cr fi MAX_CART_ITEMS_def)
  qed
qed

lemma addItem_merge:
  assumes c: "is_Cart c" and act: "status c = ACTIVE"
    and cur: "currency (unitPrice p) = cartCurrency c"
    and pv: "CartItem_validate p = None"
    and pq: "is_Quantity (quantity p)"
    and fi: "findIndex (\<lambda>item. productId item = productId p) (items c) = int i"
  shows "addItem c p now =
           (if Quantity_value (quantity (items c ! i)) + Quantity_value (quantity p) \<le> 999
            then Inr (c\<lparr>items := (items c)[i := (items c ! i)\<lparr>quantity :=
                        Quantity (Quantity_value (quantity (items c ! i))
                                  + Quantity_value (quantity p))\<rparr>],
                      updatedAt := now\<rparr>)
            else Inl (InvalidQuantityError
                   (of_int (Quantity_value (quantity (items c ! i))
                            + Quantity_value (quantity p)))))"
proof -
  let ?it = "items c ! i"
  let ?q = "Quantity_value (quantity ?it) + Quantity_value (quantity p)"
  have ea: "ensureActive c = None"
    using act by (simp add: ensureActive_None)
  have cr: "CartItem_create p = Inr p"
    using pv by (rule CartItem_create_ok)
  have fi': "findIndex (\<lambda>item. ProductId_equals (productId item) (productId p)) (items c) = int i"
    using fi by (simp add: ProductId_equals_eq)
  have "0 \<le> findIndex (\<lambda>item. productId item = productId p) (items c)"
    using fi by simp
  from findIndex_found [OF this] have i: "i < length (items c)"
    using fi by simp
  then have mem: "?it \<in> set (items c)"
    by simp
  have it: "is_CartItem ?it"
    using c mem by (simp add: is_Cart_def list_all_iff)
  have q1: "1 \<le> Quantity_value (quantity ?it)"
    using it by (simp add: is_CartItem_def is_Quantity_iff)
  have q2: "1 \<le> Quantity_value (quantity p)"
    using pq by (simp add: is_Quantity_iff)
  have qa: "Quantity_add (quantity ?it) (quantity p) =
              (if ?q \<le> 999 then Inr (Quantity ?q) else Inl (InvalidQuantityError (of_int ?q)))"
  proof -
    have "1 \<le> ?q" using q1 q2 by simp
    then show ?thesis
      unfolding Quantity_add_def Quantity_from_of_int by simp
  qed
  show ?thesis
  proof (cases "?q \<le> 999")
    case False
    then show ?thesis
      by (simp add: addItem_def ea cur cr fi' Let_def increaseQuantity_def qa)
  next
    case True
    let ?m = "?it\<lparr>quantity := Quantity ?q\<rparr>"
    have "CartItem_validate ?m = None"
      using it by (simp add: CartItem_validate_quantity is_CartItem_def)
    then have inc: "increaseQuantity ?it (quantity p) = Inr ?m"
      using True by (simp add: increaseQuantity_def qa updateQuantity_def CartItem_create_ok)
    have "Cart_validate c = None"
      using c by (simp add: is_Cart_def)
    moreover have "\<forall>x \<in> set ((items c)[i := ?m]). currency (unitPrice x) = cartCurrency c"
    proof
      fix x assume "x \<in> set ((items c)[i := ?m])"
      then have "x = ?m \<or> x \<in> set (items c)"
        using set_update_subset_insert [of "items c" i ?m] by auto
      moreover have "\<forall>y \<in> set (items c). currency (unitPrice y) = cartCurrency c"
        using \<open>Cart_validate c = None\<close> by (simp add: Cart_validate_None)
      ultimately show "currency (unitPrice x) = cartCurrency c"
        using mem by auto
    qed
    ultimately have "Cart_validate (c\<lparr>items := (items c)[i := ?m], updatedAt := now\<rparr>) = None"
      by (simp add: Cart_validate_None)
    then have "withUpdatedItems c ((items c)[i := ?m]) now
                 = Inr (c\<lparr>items := (items c)[i := ?m], updatedAt := now\<rparr>)"
      by (simp add: withUpdatedItems_def new_Cart_ok)
    moreover have "slice (items c) 0 i @ [?m] @ slice_from (items c) (i + 1) = (items c)[i := ?m]"
      using i by (rule splice_update)
    ultimately show ?thesis
      using True by (simp add: addItem_def ea cur cr fi' Let_def inc nat_add_distrib)
  qed
qed

lemma abandon_eq:
  "Cart_validate c = None \<Longrightarrow> abandon c now = Inr (c\<lparr>status := ABANDONED, updatedAt := now\<rparr>)"
  by (simp add: abandon_def new_Cart_ok Cart_validate_status)

lemma checkout_eq:
  "Cart_validate c = None \<Longrightarrow> items c \<noteq> [] \<Longrightarrow>
   checkout c now = Inr (c\<lparr>status := CHECKED_OUT, updatedAt := now\<rparr>)"
  by (simp add: checkout_def isEmpty_def new_Cart_ok Cart_validate_status)

lemma Cart_create_eq:
  "\<exists>ch \<in> set uid. \<not> isWhiteSpace ch \<Longrightarrow>
   Cart_create newId now uid cur =
     Inr \<lparr>cartId = newId, userId = uid, items = [], status = ACTIVE,
          cartCurrency = (case cur of Some c \<Rightarrow> c | None \<Rightarrow> EUR),
          createdAt = now, updatedAt = now\<rparr>"
  by (simp add: Cart_create_def DEFAULT_CURRENCY_def new_Cart_ok Cart_validate_None
      split: option.splits)

lemma addItem_invariant: "addItem c0 itemProps now = Inr c \<Longrightarrow> cart_invariant c"
  by (auto simp add: addItem_def Let_def split: option.splits sum.splits if_splits
      dest: withUpdatedItems_invariant)

lemma removeItem_invariant: "removeItem c0 pid now = Inr c \<Longrightarrow> cart_invariant c"
  by (auto simp add: removeItem_def Let_def split: option.splits if_splits
      dest: withUpdatedItems_invariant)

lemma updateItemQuantity_invariant:
  "updateItemQuantity c0 pid q now = Inr c \<Longrightarrow> cart_invariant c"
  by (auto simp add: updateItemQuantity_def Let_def split: option.splits sum.splits if_splits
      dest: withUpdatedItems_invariant)

lemma clearItems_invariant: "clearItems c0 now = Inr c \<Longrightarrow> cart_invariant c"
  by (auto simp add: clearItems_def split: option.splits dest: withUpdatedItems_invariant)

lemma abandon_invariant: "abandon c0 now = Inr c \<Longrightarrow> cart_invariant c"
  unfolding abandon_def by (rule new_Cart_invariant)

lemma checkout_invariant: "checkout c0 now = Inr c \<Longrightarrow> cart_invariant c"
  by (auto simp add: checkout_def split: if_splits dest: new_Cart_invariant)

lemma fromProps_iff: "(\<exists>c'. fromProps props = Inr c') \<longleftrightarrow> cart_invariant props"
  by (simp add: fromProps_def new_Cart_Inr cart_invariant_iff)

lemma lineTotal_eq:
  assumes "is_Money (unitPrice i)" and "is_Quantity (quantity i)"
    and "amountInCents (unitPrice i) * Quantity_value (quantity i) \<le> MAX_SAFE_INTEGER"
  shows "lineTotal i = Inr \<lparr>amountInCents = amountInCents (unitPrice i) * Quantity_value (quantity i),
                             currency = currency (unitPrice i)\<rparr>"
proof -
  let ?n = "amountInCents (unitPrice i) * Quantity_value (quantity i)"
  have nn: "0 \<le> ?n"
    using assms(1,2) by (simp add: is_Money_iff is_Quantity_iff)
  have "number_times (Finite (of_int (amountInCents (unitPrice i))))
          (Finite (of_int (Quantity_value (quantity i)))) = Finite (of_int ?n)"
    using double_round_safe_integer [OF nn assms(3)] by simp
  then have "Math_round_number (number_times (Finite (of_int (amountInCents (unitPrice i))))
               (Finite (of_int (Quantity_value (quantity i))))) = Finite (of_int ?n)"
    by (simp only: Math_round_number.simps Math_round_of_int)
  then show ?thesis
    using Money_fromCents_of_int [OF nn]
    by (simp only: lineTotal_def Money_multiply_def Let_def)
qed

lemma Money_add_eq:
  assumes "currency a = currency b" and "0 \<le> amountInCents a + amountInCents b"
    and "amountInCents a + amountInCents b \<le> MAX_SAFE_INTEGER"
  shows "Money_add a b = Inr \<lparr>amountInCents = amountInCents a + amountInCents b,
                             currency = currency a\<rparr>"
proof -
  have "number_plus (Finite (of_int (amountInCents a))) (Finite (of_int (amountInCents b)))
          = Finite (of_int (amountInCents a + amountInCents b))"
    using double_round_safe_integer [OF assms(2) assms(3)] by simp
  then show ?thesis
    using assms(1) Money_fromCents_of_int [OF assms(2)]
    by (simp add: Money_add_def ensureSameCurrency_def del: of_int_add)
qed

lemma total_reduce_eq:
  assumes "0 \<le> amountInCents acc"
    and "\<forall>i \<in> set its. is_CartItem i \<and> currency (unitPrice i) = currency acc"
    and "amountInCents acc
           + (\<Sum>i\<leftarrow>its. amountInCents (unitPrice i) * Quantity_value (quantity i))
         \<le> MAX_SAFE_INTEGER"
  shows "total_reduce acc its =
           Inr \<lparr>amountInCents = amountInCents acc
                    + (\<Sum>i\<leftarrow>its. amountInCents (unitPrice i) * Quantity_value (quantity i)),
                currency = currency acc\<rparr>"
  using assms
proof (induction its arbitrary: acc)
  case Nil
  then show ?case by simp
next
  case (Cons i its)
  let ?n = "amountInCents (unitPrice i) * Quantity_value (quantity i)"
  let ?s = "\<Sum>i\<leftarrow>its. amountInCents (unitPrice i) * Quantity_value (quantity i)"
  let ?acc' = "\<lparr>amountInCents = amountInCents acc + ?n, currency = currency acc\<rparr>"
  have it: "is_Money (unitPrice i)" "is_Quantity (quantity i)"
    and cur: "currency (unitPrice i) = currency acc"
    using Cons.prems(2) by (simp_all add: is_CartItem_def)
  have nn: "0 \<le> ?n"
    using it by (simp add: is_Money_iff is_Quantity_iff)
  have "\<forall>j \<in> set its. 0 \<le> amountInCents (unitPrice j) * Quantity_value (quantity j)"
    using Cons.prems(2)
    by (auto simp add: is_CartItem_def is_Money_iff is_Quantity_iff intro!: mult_nonneg_nonneg)
  then have sn: "0 \<le> ?s"
    by (intro sum_list_nonneg) auto
  have bound: "amountInCents acc + ?n + ?s \<le> MAX_SAFE_INTEGER"
    using Cons.prems(3) by (simp add: add.assoc)
  have b1: "?n \<le> MAX_SAFE_INTEGER"
    using bound sn Cons.prems(1) by linarith
  have b2: "amountInCents acc + ?n \<le> MAX_SAFE_INTEGER"
    using bound sn by linarith
  have lt: "lineTotal i = Inr \<lparr>amountInCents = ?n, currency = currency (unitPrice i)\<rparr>"
    using it b1 by (rule lineTotal_eq)
  have add: "Money_add acc \<lparr>amountInCents = ?n, currency = currency (unitPrice i)\<rparr> = Inr ?acc'"
    using Money_add_eq [of acc "\<lparr>amountInCents = ?n, currency = currency (unitPrice i)\<rparr>"]
      cur nn b2 Cons.prems(1) by simp
  have "total_reduce ?acc' its =
          Inr \<lparr>amountInCents = amountInCents ?acc' + ?s, currency = currency ?acc'\<rparr>"
    using Cons.prems(1,2) nn bound by (intro Cons.IH) simp_all
  then show ?case
    by (simp add: lt add add.assoc)
qed

lemma total_eq:
  assumes "is_Cart c"
    and "(\<Sum>i\<leftarrow>items c. amountInCents (unitPrice i) * Quantity_value (quantity i))
         \<le> MAX_SAFE_INTEGER"
  shows "Cart_total c = Inr \<lparr>amountInCents =
                          (\<Sum>i\<leftarrow>items c. amountInCents (unitPrice i) * Quantity_value (quantity i)),
                        currency = cartCurrency c\<rparr>"
proof -
  have "\<forall>i \<in> set (items c).
          is_CartItem i \<and> currency (unitPrice i) = currency \<lparr>amountInCents = 0, currency = cartCurrency c\<rparr>"
    using assms(1) by (simp add: is_Cart_def list_all_iff Cart_validate_None)
  from total_reduce_eq [OF _ this] assms(2) show ?thesis
    by (simp add: Cart_total_def Money_zero_eq)
qed

lemma line_le_sum:
  assumes "\<forall>j \<in> set its. 0 \<le> f j" and "i \<in> set its"
  shows "f i \<le> (\<Sum>j\<leftarrow>its. f j :: int)"
  using assms
proof (induction its)
  case Nil
  then show ?case by simp
next
  case (Cons x xs)
  have "0 \<le> (\<Sum>j\<leftarrow>xs. f j)"
    using Cons.prems(1) by (intro sum_list_nonneg) auto
  moreover have "0 \<le> f x"
    using Cons.prems(1) by simp
  ultimately show ?case
    using Cons by (cases "i = x") (auto simp add: add_increasing)
qed

lemma itemCount_eq: "itemCount c = (\<Sum>i\<leftarrow>items c. Quantity_value (quantity i))"
proof -
  have "foldl (\<lambda>acc item. acc + Quantity_value (quantity item)) a its
          = a + (\<Sum>i\<leftarrow>its. Quantity_value (quantity i))" for a and its :: "CartItem list"
    by (induction its arbitrary: a) simp_all
  then show ?thesis by (simp add: itemCount_def)
qed

lemma Money_from_2999:
  "Money_from (Number_literal (2999 / 100)) EUR = Inr \<lparr>amountInCents = 2999, currency = EUR\<rparr>"
proof -
  have "number_times (Number_literal (2999 / 100)) (Finite 100) = Finite 2999"
    by (simp only: literal_2999 number_times.simps literal_2999_times_100)
  then have "Math_round_number (number_times (Number_literal (2999 / 100)) (Finite 100))
               = Finite (of_int 2999)"
    using Math_round_of_int [of 2999] by simp
  then show ?thesis
    using Money_fromCents_of_int [of 2999 EUR]
    by (simp only: Money_from_def Money_fromCents_def Let_def)
qed

lemma Money_from_1550:
  "Money_from (Number_literal (1550 / 100)) EUR = Inr \<lparr>amountInCents = 1550, currency = EUR\<rparr>"
proof -
  have "number_times (Number_literal (1550 / 100)) (Finite 100) = double_round (1550 / 100 * 100)"
    by (simp only: literal_1550 number_times.simps)
  also have "(1550 / 100 * 100 :: rat) = of_int 1550"
    by simp
  also have "double_round (of_int 1550) = Finite (of_int 1550)"
    by (rule double_round_safe_integer) (simp_all add: MAX_SAFE_INTEGER_def)
  finally have "Math_round_number (number_times (Number_literal (1550 / 100)) (Finite 100))
               = Finite (of_int 1550)"
    by (simp only: Math_round_number.simps Math_round_of_int)
  then show ?thesis
    using Money_fromCents_of_int [of 1550 EUR]
    by (simp only: Money_from_def Money_fromCents_def Let_def)
qed

lemma basic_total_scenario_eq:
  assumes uid: "\<exists>ch \<in> set uid. \<not> isWhiteSpace ch"
    and n1: "\<exists>ch \<in> set name1. \<not> isWhiteSpace ch" "length name1 \<le> 200"
    and n2: "\<exists>ch \<in> set name2. \<not> isWhiteSpace ch" "length name2 \<le> 200"
  shows "basic_total_scenario newId uid name1 name2 t0 t1 t2 =
           Inr \<lparr>cartId = newId, userId = uid,
                items = [\<lparr>productId = ProductId ''PROD-001'', productName = name1,
                           quantity = Quantity 2,
                           unitPrice = \<lparr>amountInCents = 2999, currency = EUR\<rparr>\<rparr>,
                         \<lparr>productId = ProductId ''PROD-002'', productName = name2,
                           quantity = Quantity 1,
                           unitPrice = \<lparr>amountInCents = 1550, currency = EUR\<rparr>\<rparr>],
                status = ACTIVE, cartCurrency = EUR, createdAt = t0, updatedAt = t2\<rparr>"
proof -
  let ?c0 = "\<lparr>cartId = newId, userId = uid, items = [], status = ACTIVE,
              cartCurrency = EUR, createdAt = t0, updatedAt = t0\<rparr>"
  let ?i1 = "\<lparr>productId = ProductId ''PROD-001'', productName = name1, quantity = Quantity 2,
              unitPrice = \<lparr>amountInCents = 2999, currency = EUR\<rparr>\<rparr>"
  let ?i2 = "\<lparr>productId = ProductId ''PROD-002'', productName = name2, quantity = Quantity 1,
              unitPrice = \<lparr>amountInCents = 1550, currency = EUR\<rparr>\<rparr>"
  have a: "Cart_create newId t0 uid (Some EUR) = Inr ?c0"
    using uid by (simp add: Cart_create_eq)
  have q: "Quantity_from 2 = Inr (Quantity 2)" "Quantity_from 1 = Inr (Quantity 1)"
    using Quantity_from_of_int [of 2] Quantity_from_of_int [of 1] by simp_all
  have b: "addItem ?c0 ?i1 t1 = Inr (?c0\<lparr>items := [?i1], updatedAt := t1\<rparr>)"
    using uid n1 by (subst addItem_new) (simp_all add: Cart_validate_None CartItem_validate_None)
  have c: "addItem (?c0\<lparr>items := [?i1], updatedAt := t1\<rparr>) ?i2 t2
             = Inr (?c0\<lparr>items := [?i1, ?i2], updatedAt := t2\<rparr>)"
    using uid n2 by (subst addItem_new) (simp_all add: Cart_validate_None CartItem_validate_None)
  show ?thesis
    using Money_from_2999 Money_from_1550 b c
    by (simp add: basic_total_scenario_def a q)
qed


text \<open>Facts that evaluate the class invariants on the example values.\<close>

lemmas ex_simps = is_Cart_def is_CartItem_def is_Quantity_iff is_Money_iff Cart_validate_None
  CartItem_validate_None ex_cart_def ex_item_def ex_id_def str_def isWhiteSpace_def

lemma ex_item_ok: "1 \<le> q \<Longrightarrow> q \<le> 999 \<Longrightarrow> 0 < cents \<Longrightarrow> is_CartItem (ex_item pid q cents cur)"
  by (simp add: is_CartItem_def is_Quantity_iff is_Money_iff CartItem_validate_None ex_item_def
      str_def isWhiteSpace_def)

lemma ex_pid_inj:
  assumes j: "j < 100" and k: "k < 100" and eq: "ex_pid j = ex_pid k"
  shows "j = k"
proof -
  from eq have d: "char_of (48 + j div 10) = (char_of (48 + k div 10) :: char)"
    and m: "char_of (48 + j mod 10) = (char_of (48 + k mod 10) :: char)"
    by (simp_all add: ex_pid_def)
  from d have "(of_char (char_of (48 + j div 10) :: char) :: nat)
                 = of_char (char_of (48 + k div 10) :: char)"
    by simp
  then have "(48 + j div 10) mod 256 = (48 + k div 10) mod 256"
    by (simp only: of_char_of)
  then have dv: "j div 10 = k div 10"
    using j k by simp
  from m have "(of_char (char_of (48 + j mod 10) :: char) :: nat)
                 = of_char (char_of (48 + k mod 10) :: char)"
    by simp
  then have "(48 + j mod 10) mod 256 = (48 + k mod 10) mod 256"
    by (simp only: of_char_of)
  then have md: "j mod 10 = k mod 10"
    by simp
  from dv md show "j = k"
    by (metis div_mult_mod_eq)
qed

lemma ex_full_items: "items (ex_full n) = map (\<lambda>k. ex_item (ex_pid k) 1 100 EUR) [0..<n]"
  by (simp add: ex_full_def ex_cart_def)

lemma ex_full_length: "length (items (ex_full n)) = n"
  by (simp add: ex_full_items)

lemma ex_full_status: "status (ex_full n) = ACTIVE"
  by (simp add: ex_full_def ex_cart_def)

lemma ex_full_is_Cart: "n \<le> 100 \<Longrightarrow> is_Cart (ex_full n)"
  by (simp add: is_Cart_def list_all_iff Cart_validate_None ex_full_def ex_cart_def ex_item_ok
      str_def isWhiteSpace_def) (simp add: ex_item_def)

lemma ex_full_distinct: "n \<le> 100 \<Longrightarrow> distinct (map productId (items (ex_full n)))"
proof -
  assume n: "n \<le> 100"
  have "map productId (items (ex_full n)) = map ex_pid [0..<n]"
    by (simp add: ex_full_items ex_item_def)
  moreover have "inj_on ex_pid (set [0..<n])"
  proof (rule inj_onI)
    fix x y assume "x \<in> set [0..<n]" and "y \<in> set [0..<n]" and "ex_pid x = ex_pid y"
    then show "x = y"
      using n ex_pid_inj [of x y] by simp
  qed
  ultimately show ?thesis
    by (simp add: distinct_map)
qed

lemma ex_full_fresh: "\<forall>i \<in> set (items (ex_full n)). productId i \<noteq> ProductId ''PROD-NEW''"
  by (simp add: ex_full_items ex_item_def ex_pid_def)

lemma filter_key_one:
  assumes "distinct (map f xs)" and "i < length xs"
  shows "length (filter (\<lambda>x. f x = f (xs ! i)) xs) = 1"
proof -
  have "length (filter (\<lambda>x. f x = f (xs ! i)) xs)
          = length (filter (\<lambda>k. k = f (xs ! i)) (map f xs))"
    by (simp add: filter_map o_def)
  also have "\<dots> = card ({k. k = f (xs ! i)} \<inter> set (map f xs))"
    using assms(1) by (rule distinct_length_filter)
  also have "{k. k = f (xs ! i)} \<inter> set (map f xs) = {f (xs ! i)}"
    using assms(2) by auto
  finally show ?thesis by simp
qed

lemma ex_merge:
  assumes "1 \<le> q1" "q1 \<le> 999" "1 \<le> q2" "q2 \<le> 999" "0 < cents" "0 < cents'"
    and rest: "list_all is_CartItem rest" "length rest < 100"
      "\<forall>i \<in> set rest. currency (unitPrice i) = EUR"
  shows "addItem (ex_cart (ex_item pid q1 cents EUR # rest) ACTIVE) (ex_item pid q2 cents' EUR) now
         = (if q1 + q2 \<le> 999
            then Inr ((ex_cart (ex_item pid (q1 + q2) cents EUR # rest) ACTIVE)\<lparr>updatedAt := now\<rparr>)
            else Inl (InvalidQuantityError (of_int (q1 + q2))))"
proof -
  let ?c = "ex_cart (ex_item pid q1 cents EUR # rest) ACTIVE"
  let ?p = "ex_item pid q2 cents' EUR"
  have c: "is_Cart ?c"
    using rest assms(1-6) ex_item_ok [of q1 cents pid EUR]
    by (simp add: is_Cart_def Cart_validate_None ex_cart_def str_def isWhiteSpace_def)
       (simp add: ex_item_def)
  have pv: "CartItem_validate ?p = None" and pq: "is_Quantity (quantity ?p)"
    using assms(1-6) ex_item_ok [of q2 cents' pid EUR] by (simp_all add: is_CartItem_def)
  have fi: "findIndex (\<lambda>item. productId item = productId ?p) (items ?c) = int 0"
    by (simp add: ex_cart_def ex_item_def)
  have "status ?c = ACTIVE" "currency (unitPrice ?p) = cartCurrency ?c"
    by (simp_all add: ex_cart_def ex_item_def)
  from addItem_merge [OF c this pv pq fi, of now] show ?thesis
    by (simp add: ex_cart_def ex_item_def)
qed

section \<open>Money\<close>

text \<open>
  C10. \<open>Money.equals\<close> has no failing path (its body calls no validator, so its model has
  the type \<open>bool\<close> and not \<open>error + bool\<close>), and for every pair of Money values it is
  true exactly when the amounts in minor units and the currencies are both equal, that is
  when the two values are equal; for values of different currencies it is false, where
  \<open>isGreaterThan\<close> and \<open>isLessThan\<close> throw.
\<close>

theorem Money_equals_total:
  fixes a b :: Money
  shows "(Money_equals a b \<longleftrightarrow> amountInCents a = amountInCents b \<and> currency a = currency b)
       \<and> (Money_equals a b \<longleftrightarrow> a = b)
       \<and> (currency a \<noteq> currency b \<longrightarrow>
            \<not> Money_equals a b
            \<and> (\<exists>e. Money_isGreaterThan a b = Inl e)
            \<and> (\<exists>e. Money_isLessThan a b = Inl e))"
  by (cases a, cases b)
     (auto simp add: Money_equals_def Money_isGreaterThan_def Money_isLessThan_def
        ensureSameCurrency_def)

theorem Money_equals_total_witness:
  "currency \<lparr>amountInCents = 1000, currency = EUR\<rparr> \<noteq> currency \<lparr>amountInCents = 1000, currency = USD\<rparr>
   \<and> \<not> Money_equals \<lparr>amountInCents = 1000, currency = EUR\<rparr> \<lparr>amountInCents = 1000, currency = USD\<rparr>
   \<and> Money_equals \<lparr>amountInCents = 1000, currency = EUR\<rparr> \<lparr>amountInCents = 1000, currency = EUR\<rparr>"
  using Money_equals_total [of "\<lparr>amountInCents = 1000, currency = EUR\<rparr>"
                               "\<lparr>amountInCents = 1000, currency = USD\<rparr>"]
        Money_equals_total [of "\<lparr>amountInCents = 1000, currency = EUR\<rparr>"
                               "\<lparr>amountInCents = 1000, currency = EUR\<rparr>"]
  by simp

text \<open>
  C6, as stated, fails: \<open>ensureSameCurrency\<close> throws a plain \<open>Error\<close>, which is not a
  \<open>DomainError\<close>: adding 10.00 EUR and 5.00 USD fails with an error that has neither a
  \<open>code\<close> nor a \<open>context\<close>, and no error class of the code is a currency mismatch kind.
\<close>

theorem currency_mismatch_counterexample:
  "Money_add \<lparr>amountInCents = 1000, currency = EUR\<rparr> \<lparr>amountInCents = 500, currency = USD\<rparr>
     = Inl (Error ''Cannot operate on different currencies: EUR and USD'')
   \<and> DomainError_code (Error ''Cannot operate on different currencies: EUR and USD'') = None
   \<and> DomainError_context (Error ''Cannot operate on different currencies: EUR and USD'') = None"
  by (simp add: Money_add_def ensureSameCurrency_def)

text \<open>
  C6, amended. For every pair of Money values with different currencies, \<open>add\<close>,
  \<open>subtract\<close>, \<open>isGreaterThan\<close> and \<open>isLessThan\<close> all fail with the same plain \<open>Error\<close>,
  whose message names the two currencies and which has no machine-readable code and no
  context; every other error of the domain (the subclasses of \<open>DomainError\<close>) has a code.
\<close>

theorem currency_mismatch_plain_error:
  assumes "currency a \<noteq> currency b"
  shows "\<exists>msg. msg = ''Cannot operate on different currencies: ''
                     @ Currency_string (currency a) @ '' and '' @ Currency_string (currency b)
           \<and> Money_add a b = Inl (Error msg)
           \<and> Money_subtract a b = Inl (Error msg)
           \<and> Money_isGreaterThan a b = Inl (Error msg)
           \<and> Money_isLessThan a b = Inl (Error msg)
           \<and> DomainError_code (Error msg) = None
           \<and> DomainError_context (Error msg) = None
           \<and> (\<forall>e. DomainError_code e = None \<longleftrightarrow> (\<exists>m. e = Error m))"
proof -
  have "DomainError_code e = None \<longleftrightarrow> (\<exists>m. e = Error m)" for e
    by (cases e) simp_all
  then show ?thesis
    using assms
    by (simp add: Money_add_def Money_subtract_def Money_isGreaterThan_def
        Money_isLessThan_def ensureSameCurrency_def)
qed

theorem currency_mismatch_plain_error_witness:
  "currency \<lparr>amountInCents = 1000, currency = EUR\<rparr> \<noteq> currency \<lparr>amountInCents = 500, currency = GBP\<rparr>
   \<and> Money_subtract \<lparr>amountInCents = 1000, currency = EUR\<rparr> \<lparr>amountInCents = 500, currency = GBP\<rparr>
       = Inl (Error ''Cannot operate on different currencies: EUR and GBP'')
   \<and> Money_isLessThan \<lparr>amountInCents = 1000, currency = EUR\<rparr> \<lparr>amountInCents = 500, currency = GBP\<rparr>
       = Inl (Error ''Cannot operate on different currencies: EUR and GBP'')"
proof -
  have h: "currency \<lparr>amountInCents = 1000, currency = EUR\<rparr>
             \<noteq> currency \<lparr>amountInCents = 500, currency = GBP\<rparr>"
    by simp
  show ?thesis
    using h currency_mismatch_plain_error [OF h] by simp
qed

section \<open>Cart: status gating and lifecycle\<close>

text \<open>
  C2. For every Cart whose status is not ACTIVE (so ABANDONED or CHECKED_OUT), each of
  \<open>addItem\<close>, \<open>removeItem\<close>, \<open>updateItemQuantity\<close> and \<open>clearItems\<close> fails with
  \<open>CartNotActiveError\<close> (code \<open>CART_NOT_ACTIVE\<close>), whatever its arguments. The receiver
  is an immutable value, so it is the same after the call.
\<close>

theorem inactive_cart_rejects_mutators:
  assumes "status c \<noteq> ACTIVE"
  shows "\<exists>e. e = CartNotActiveError (CartId_value (cartId c)) (CartStatus_string (status c))
           \<and> DomainError_code e = Some ''CART_NOT_ACTIVE''
           \<and> addItem c itemProps now = Inl e
           \<and> removeItem c pid now = Inl e
           \<and> updateItemQuantity c pid newQuantity now = Inl e
           \<and> clearItems c now = Inl e"
  using ensureActive_Some [OF assms]
  by (simp add: addItem_def removeItem_def updateItemQuantity_def clearItems_def)

theorem inactive_cart_rejects_mutators_witness:
  "status (ex_cart [ex_item (ProductId ''PROD-001'') 2 2999 EUR] CHECKED_OUT) \<noteq> ACTIVE
   \<and> addItem (ex_cart [ex_item (ProductId ''PROD-001'') 2 2999 EUR] CHECKED_OUT)
        (ex_item (ProductId ''PROD-002'') 1 1550 EUR) 5
       = Inl (CartNotActiveError ''123e4567-e89b-42d3-a456-426614174000'' ''CHECKED_OUT'')
   \<and> clearItems (ex_cart [ex_item (ProductId ''PROD-001'') 2 2999 EUR] CHECKED_OUT) 5
       = Inl (CartNotActiveError ''123e4567-e89b-42d3-a456-426614174000'' ''CHECKED_OUT'')"
proof -
  have h: "status (ex_cart [ex_item (ProductId ''PROD-001'') 2 2999 EUR] CHECKED_OUT) \<noteq> ACTIVE"
    by (simp add: ex_cart_def)
  show ?thesis
    using h inactive_cart_rejects_mutators [OF h, of "ex_item (ProductId ''PROD-002'') 1 1550 EUR" 5]
    by (simp add: ex_cart_def ex_id_def)
qed

text \<open>
  C7. \<open>checkout()\<close> on a cart with no items fails with \<open>InvalidCartError\<close> and the message
  \<open>Cannot checkout empty cart\<close>; on a cart with at least one item it succeeds, and the
  cart it returns has the status CHECKED_OUT (and is otherwise the receiver with a new
  \<open>updatedAt\<close>).
\<close>

theorem checkout_guard:
  assumes "is_Cart c"
  shows "(items c = [] \<longrightarrow>
            checkout c now = Inl (InvalidCartError ''Cannot checkout empty cart''
                                   (Some [(''cartId'', VStr (CartId_value (cartId c)))])))
       \<and> (items c \<noteq> [] \<longrightarrow>
            (\<exists>c'. checkout c now = Inr c' \<and> status c' = CHECKED_OUT
                 \<and> c' = c\<lparr>status := CHECKED_OUT, updatedAt := now\<rparr>))"
proof -
  have "Cart_validate (c\<lparr>status := CHECKED_OUT, updatedAt := now\<rparr>) = None"
    using assms by (simp add: is_Cart_def Cart_validate_status)
  then have "new_Cart (c\<lparr>status := CHECKED_OUT, updatedAt := now\<rparr>)
               = Inr (c\<lparr>status := CHECKED_OUT, updatedAt := now\<rparr>)"
    by (rule new_Cart_ok)
  then show ?thesis
    by (simp add: checkout_def isEmpty_def)
qed

theorem checkout_guard_witness:
  "is_Cart (ex_cart [] ACTIVE)
   \<and> is_Cart (ex_cart [ex_item (ProductId ''PROD-001'') 2 2999 EUR] ACTIVE)
   \<and> checkout (ex_cart [] ACTIVE) 7
       = Inl (InvalidCartError ''Cannot checkout empty cart''
               (Some [(''cartId'', VStr ''123e4567-e89b-42d3-a456-426614174000'')]))
   \<and> checkout (ex_cart [ex_item (ProductId ''PROD-001'') 2 2999 EUR] ACTIVE) 7
       = Inr ((ex_cart [ex_item (ProductId ''PROD-001'') 2 2999 EUR] CHECKED_OUT)\<lparr>updatedAt := 7\<rparr>)"
proof -
  have h0: "is_Cart (ex_cart [] ACTIVE)"
    by (simp add: ex_simps)
  have h1: "is_Cart (ex_cart [ex_item (ProductId ''PROD-001'') 2 2999 EUR] ACTIVE)"
    by (simp add: ex_simps)
  show ?thesis
    using h0 h1 checkout_guard [OF h0, of 7] checkout_guard [OF h1, of 7]
    by (simp add: ex_cart_def ex_id_def)
qed

text \<open>
  C1. The statuses ABANDONED and CHECKED_OUT are meant to be terminal, but \<open>abandon()\<close> and
  \<open>checkout()\<close> do not call \<open>ensureActive()\<close> as the item mutators do. On the cart obtained
  by \<open>create\<close>, \<open>addItem\<close> and \<open>checkout\<close>, whose status is CHECKED_OUT, \<open>abandon()\<close> returns a
  cart with status ABANDONED, and on that cart \<open>checkout()\<close> returns a cart with status
  CHECKED_OUT again: both terminal statuses are left.
\<close>

theorem terminal_status_left:
  "Cart_create ex_id 0 (str ''user-123'') None = Inr (ex_cart [] ACTIVE)
   \<and> addItem (ex_cart [] ACTIVE) (ex_item (ProductId ''PROD-001'') 2 2999 EUR) 0
        = Inr (ex_cart [ex_item (ProductId ''PROD-001'') 2 2999 EUR] ACTIVE)
   \<and> checkout (ex_cart [ex_item (ProductId ''PROD-001'') 2 2999 EUR] ACTIVE) 0
        = Inr (ex_cart [ex_item (ProductId ''PROD-001'') 2 2999 EUR] CHECKED_OUT)
   \<and> abandon (ex_cart [ex_item (ProductId ''PROD-001'') 2 2999 EUR] CHECKED_OUT) 0
        = Inr (ex_cart [ex_item (ProductId ''PROD-001'') 2 2999 EUR] ABANDONED)
   \<and> checkout (ex_cart [ex_item (ProductId ''PROD-001'') 2 2999 EUR] ABANDONED) 0
        = Inr (ex_cart [ex_item (ProductId ''PROD-001'') 2 2999 EUR] CHECKED_OUT)
   \<and> status (ex_cart [ex_item (ProductId ''PROD-001'') 2 2999 EUR] CHECKED_OUT) = CHECKED_OUT
   \<and> status (ex_cart [ex_item (ProductId ''PROD-001'') 2 2999 EUR] ABANDONED) = ABANDONED"
proof -
  let ?it = "ex_item (ProductId ''PROD-001'') 2 2999 EUR"
  have a: "Cart_create ex_id 0 (str ''user-123'') None = Inr (ex_cart [] ACTIVE)"
    by (simp add: Cart_create_eq ex_cart_def str_def isWhiteSpace_def)
  have b: "addItem (ex_cart [] ACTIVE) ?it 0 = Inr (ex_cart [?it] ACTIVE)"
    by (subst addItem_new) (simp_all add: ex_simps)
  have c: "checkout (ex_cart [?it] st) 0 = Inr (ex_cart [?it] CHECKED_OUT)" for st
    by (subst checkout_eq) (simp_all add: ex_simps)
  have d: "abandon (ex_cart [?it] CHECKED_OUT) 0 = Inr (ex_cart [?it] ABANDONED)"
    by (subst abandon_eq) (simp_all add: ex_simps)
  show ?thesis
    using a b c d by (simp add: ex_cart_def)
qed

section \<open>Cart: the aggregate invariant\<close>

text \<open>
  C5. Every Cart value that is constructed satisfies the aggregate invariant (at most 100
  line items, every unit price in the currency of the cart, a user id that is not
  blank): whenever \<open>create\<close>, \<open>fromProps\<close>, \<open>addItem\<close>, \<open>removeItem\<close>,
  \<open>updateItemQuantity\<close>, \<open>clearItems\<close>, \<open>abandon\<close> or \<open>checkout\<close> returns a Cart, that Cart
  satisfies it, whatever the receiver and the arguments were; and \<open>fromProps\<close> returns a
  Cart exactly for the props that satisfy it.
\<close>

theorem cart_invariant_always:
  "(Cart_create newId now uid cur = Inr c \<longrightarrow> cart_invariant c)
   \<and> (fromProps props = Inr c \<longrightarrow> cart_invariant c)
   \<and> (addItem c0 itemProps now = Inr c \<longrightarrow> cart_invariant c)
   \<and> (removeItem c0 pid now = Inr c \<longrightarrow> cart_invariant c)
   \<and> (updateItemQuantity c0 pid q now = Inr c \<longrightarrow> cart_invariant c)
   \<and> (clearItems c0 now = Inr c \<longrightarrow> cart_invariant c)
   \<and> (abandon c0 now = Inr c \<longrightarrow> cart_invariant c)
   \<and> (checkout c0 now = Inr c \<longrightarrow> cart_invariant c)
   \<and> ((\<exists>c'. fromProps props = Inr c') \<longleftrightarrow> cart_invariant props)"
proof -
  have "Cart_create newId now uid cur = Inr c \<longrightarrow> cart_invariant c"
    unfolding Cart_create_def by (blast intro: new_Cart_invariant)
  moreover have "fromProps props = Inr c \<longrightarrow> cart_invariant c"
    unfolding fromProps_def by (blast intro: new_Cart_invariant)
  ultimately show ?thesis
    using addItem_invariant [of c0 itemProps now c] removeItem_invariant [of c0 pid now c]
      updateItemQuantity_invariant [of c0 pid q now c] clearItems_invariant [of c0 now c]
      abandon_invariant [of c0 now c] checkout_invariant [of c0 now c] fromProps_iff [of props]
    by blast
qed

theorem cart_invariant_always_witness:
  "Cart_create ex_id 0 (str ''user-123'') None = Inr (ex_cart [] ACTIVE)
   \<and> cart_invariant (ex_cart [] ACTIVE)
   \<and> addItem (ex_cart [] ACTIVE) (ex_item (ProductId ''PROD-001'') 2 2999 EUR) 0
        = Inr (ex_cart [ex_item (ProductId ''PROD-001'') 2 2999 EUR] ACTIVE)
   \<and> cart_invariant (ex_cart [ex_item (ProductId ''PROD-001'') 2 2999 EUR] ACTIVE)
   \<and> checkout (ex_cart [ex_item (ProductId ''PROD-001'') 2 2999 EUR] ACTIVE) 0
        = Inr (ex_cart [ex_item (ProductId ''PROD-001'') 2 2999 EUR] CHECKED_OUT)
   \<and> cart_invariant (ex_cart [ex_item (ProductId ''PROD-001'') 2 2999 EUR] CHECKED_OUT)
   \<and> (\<nexists>c'. fromProps (ex_cart [ex_item (ProductId ''PROD-001'') 2 2999 USD] ACTIVE) = Inr c')"
proof -
  let ?it = "ex_item (ProductId ''PROD-001'') 2 2999 EUR"
  have a: "Cart_create ex_id 0 (str ''user-123'') None = Inr (ex_cart [] ACTIVE)"
    by (simp add: Cart_create_eq ex_cart_def str_def isWhiteSpace_def)
  have b: "addItem (ex_cart [] ACTIVE) ?it 0 = Inr (ex_cart [?it] ACTIVE)"
    by (subst addItem_new) (simp_all add: ex_simps)
  have c: "checkout (ex_cart [?it] ACTIVE) 0 = Inr (ex_cart [?it] CHECKED_OUT)"
    by (subst checkout_eq) (simp_all add: ex_simps)
  have d: "\<not> cart_invariant (ex_cart [ex_item (ProductId ''PROD-001'') 2 2999 USD] ACTIVE)"
    by (simp add: cart_invariant_def ex_cart_def ex_item_def)
  show ?thesis
    using a b c d
      cart_invariant_always [of ex_id 0 "str ''user-123''" None "ex_cart [] ACTIVE"
        "ex_cart [ex_item (ProductId ''PROD-001'') 2 2999 USD] ACTIVE"]
      cart_invariant_always [where ?c0.0 = "ex_cart [] ACTIVE" and itemProps = ?it and now = 0
        and c = "ex_cart [?it] ACTIVE"]
      cart_invariant_always [where ?c0.0 = "ex_cart [?it] ACTIVE" and now = 0
        and c = "ex_cart [?it] CHECKED_OUT"]
    by simp
qed


section \<open>Cart: totals\<close>

text \<open>
  C8, as stated, fails: the amounts are doubles, and a product or a sum above \<open>2^53\<close> is
  rounded. The cart with the single line PROD-001, quantity 3, at 9007199254740991 cents
  (an amount that \<open>Money.fromCents\<close> accepts, in a cart that \<open>fromProps\<close> accepts) has the
  line total and the total 27021597764222972 cents, where the unit price in minor units
  times the quantity is 27021597764222973.
\<close>

theorem total_rounding_counterexample:
  "Money_fromCents (Finite 9007199254740991) EUR
     = Inr \<lparr>amountInCents = 9007199254740991, currency = EUR\<rparr>
   \<and> is_Cart (ex_cart [ex_item (ProductId ''PROD-001'') 3 9007199254740991 EUR] ACTIVE)
   \<and> fromProps (ex_cart [ex_item (ProductId ''PROD-001'') 3 9007199254740991 EUR] ACTIVE)
       = Inr (ex_cart [ex_item (ProductId ''PROD-001'') 3 9007199254740991 EUR] ACTIVE)
   \<and> lineTotal (ex_item (ProductId ''PROD-001'') 3 9007199254740991 EUR)
       = Inr \<lparr>amountInCents = 27021597764222972, currency = EUR\<rparr>
   \<and> Cart_total (ex_cart [ex_item (ProductId ''PROD-001'') 3 9007199254740991 EUR] ACTIVE)
       = Inr \<lparr>amountInCents = 27021597764222972, currency = EUR\<rparr>
   \<and> amountInCents (unitPrice (ex_item (ProductId ''PROD-001'') 3 9007199254740991 EUR))
       * Quantity_value (quantity (ex_item (ProductId ''PROD-001'') 3 9007199254740991 EUR))
       = 27021597764222973"
proof -
  let ?it = "ex_item (ProductId ''PROD-001'') 3 9007199254740991 EUR"
  let ?lt = "\<lparr>amountInCents = 27021597764222972, currency = EUR\<rparr>"
  have m: "Money_fromCents (Finite 9007199254740991) EUR
             = Inr \<lparr>amountInCents = 9007199254740991, currency = EUR\<rparr>"
    using Money_fromCents_of_int [of 9007199254740991 EUR] by simp
  have c: "is_Cart (ex_cart [?it] ACTIVE)"
    by (simp add: ex_simps)
  have f: "fromProps (ex_cart [?it] ACTIVE) = Inr (ex_cart [?it] ACTIVE)"
    by (simp add: fromProps_def new_Cart_ok ex_simps)
  have "number_times (Finite (of_int (amountInCents (unitPrice ?it))))
          (Finite (of_int (Quantity_value (quantity ?it)))) = Finite 27021597764222972"
    using double_round_3_max_safe by (simp add: ex_item_def)
  then have "Math_round_number (number_times (Finite (of_int (amountInCents (unitPrice ?it))))
               (Finite (of_int (Quantity_value (quantity ?it))))) = Finite (of_int 27021597764222972)"
    using Math_round_of_int [of 27021597764222972] by simp
  then have l: "lineTotal ?it = Inr ?lt"
    using Money_fromCents_of_int [of 27021597764222972 EUR]
    by (simp only: lineTotal_def Money_multiply_def Let_def) (simp add: ex_item_def)
  have "number_plus (Finite (of_int 0)) (Finite (of_int 27021597764222972))
          = Finite (of_int 27021597764222972)"
    using double_round_27021597764222972 by simp
  then have "Money_add \<lparr>amountInCents = 0, currency = EUR\<rparr> ?lt = Inr ?lt"
    using Money_fromCents_of_int [of 27021597764222972 EUR]
    by (simp add: Money_add_def ensureSameCurrency_def)
  then have s: "Cart_total (ex_cart [?it] ACTIVE) = Inr ?lt"
    using l by (simp add: Cart_total_def Money_zero_eq ex_cart_def)
  have p: "amountInCents (unitPrice ?it) * Quantity_value (quantity ?it) = 27021597764222973"
    by (simp add: ex_item_def)
  show ?thesis
    using m c f l s p by simp
qed

text \<open>
  C8, amended. For every Cart whose sum over the line items of unit price in minor units
  times quantity is at most \<open>Number.MAX_SAFE_INTEGER\<close> (\<open>2^53 - 1\<close>), \<open>total\<close> is that sum,
  each line total being the unit price in minor units times the quantity (in the
  currency of the cart); and for every Cart \<open>total\<close> is \<open>Money.zero\<close> of the cart's currency
  when the cart is empty. In the scenario "basic total" (create a EUR cart, add PROD-001
  with quantity 2 at 29.99, add PROD-002 with quantity 1 at 15.50, for any user id and
  product names that pass validation) the total amount is the double 75.48 and
  \<open>itemCount\<close> is 3.
\<close>

theorem total_is_sum_of_safe_line_totals:
  assumes "is_Cart c"
    and "(\<Sum>i\<leftarrow>items c. amountInCents (unitPrice i) * Quantity_value (quantity i))
         \<le> MAX_SAFE_INTEGER"
    and "\<exists>ch \<in> set uid. \<not> isWhiteSpace ch"
    and "\<exists>ch \<in> set name1. \<not> isWhiteSpace ch" and "length name1 \<le> 200"
    and "\<exists>ch \<in> set name2. \<not> isWhiteSpace ch" and "length name2 \<le> 200"
  shows "Cart_total c = Inr \<lparr>amountInCents =
                          (\<Sum>i\<leftarrow>items c. amountInCents (unitPrice i) * Quantity_value (quantity i)),
                        currency = cartCurrency c\<rparr>
       \<and> (\<forall>i \<in> set (items c).
             lineTotal i = Inr \<lparr>amountInCents =
                                   amountInCents (unitPrice i) * Quantity_value (quantity i),
                                 currency = cartCurrency c\<rparr>)
       \<and> (items c = [] \<longrightarrow> Cart_total c = Money_zero (cartCurrency c))
       \<and> (\<exists>cart m. basic_total_scenario newId uid name1 name2 t0 t1 t2 = Inr cart
                  \<and> Cart_total cart = Inr m
                  \<and> Money_amount m = Number_literal (7548 / 100)
                  \<and> currency m = EUR
                  \<and> itemCount cart = 3)"
proof -
  let ?cart = "\<lparr>cartId = newId, userId = uid,
                items = [\<lparr>productId = ProductId ''PROD-001'', productName = name1,
                           quantity = Quantity 2,
                           unitPrice = \<lparr>amountInCents = 2999, currency = EUR\<rparr>\<rparr>,
                         \<lparr>productId = ProductId ''PROD-002'', productName = name2,
                           quantity = Quantity 1,
                           unitPrice = \<lparr>amountInCents = 1550, currency = EUR\<rparr>\<rparr>],
                status = ACTIVE, cartCurrency = EUR, createdAt = t0, updatedAt = t2\<rparr>"
  have t: "Cart_total c = Inr \<lparr>amountInCents =
                          (\<Sum>i\<leftarrow>items c. amountInCents (unitPrice i) * Quantity_value (quantity i)),
                        currency = cartCurrency c\<rparr>"
    using assms(1,2) by (rule total_eq)
  have all: "\<forall>i \<in> set (items c). is_CartItem i \<and> currency (unitPrice i) = cartCurrency c"
    using assms(1) by (simp add: is_Cart_def list_all_iff Cart_validate_None)
  have l: "\<forall>i \<in> set (items c).
             lineTotal i = Inr \<lparr>amountInCents =
                                   amountInCents (unitPrice i) * Quantity_value (quantity i),
                                 currency = cartCurrency c\<rparr>"
  proof
    fix i assume i: "i \<in> set (items c)"
    have "\<forall>j \<in> set (items c). 0 \<le> amountInCents (unitPrice j) * Quantity_value (quantity j)"
      using all
      by (auto simp add: is_CartItem_def is_Money_iff is_Quantity_iff intro!: mult_nonneg_nonneg)
    from line_le_sum [OF this i] assms(2)
    have "amountInCents (unitPrice i) * Quantity_value (quantity i) \<le> MAX_SAFE_INTEGER"
      by linarith
    then show "lineTotal i = Inr \<lparr>amountInCents =
                                   amountInCents (unitPrice i) * Quantity_value (quantity i),
                                 currency = cartCurrency c\<rparr>"
      using lineTotal_eq [of i] all i by (simp add: is_CartItem_def)
  qed
  have z: "items c = [] \<longrightarrow> Cart_total c = Money_zero (cartCurrency c)"
    by (simp add: Cart_total_def)
  have s: "basic_total_scenario newId uid name1 name2 t0 t1 t2 = Inr ?cart"
    using assms(3-7) by (rule basic_total_scenario_eq)
  have "is_Cart ?cart"
    using assms(3-7)
    by (simp add: is_Cart_def is_CartItem_def is_Quantity_iff is_Money_iff Cart_validate_None
        CartItem_validate_None)
  from total_eq [OF this]
  have "Cart_total ?cart = Inr \<lparr>amountInCents = 7548, currency = EUR\<rparr>"
    by (simp add: MAX_SAFE_INTEGER_def)
  moreover have "Money_amount \<lparr>amountInCents = 7548, currency = EUR\<rparr> = Number_literal (7548 / 100)"
    by (simp add: Money_amount_def Number_literal_def)
  moreover have "itemCount ?cart = 3"
    by (simp add: itemCount_eq)
  ultimately have "\<exists>cart m. basic_total_scenario newId uid name1 name2 t0 t1 t2 = Inr cart
                  \<and> Cart_total cart = Inr m
                  \<and> Money_amount m = Number_literal (7548 / 100)
                  \<and> currency m = EUR
                  \<and> itemCount cart = 3"
    using s by simp
  with t l z show ?thesis by blast
qed

theorem total_is_sum_of_safe_line_totals_witness:
  "is_Cart (ex_cart [ex_item (ProductId ''PROD-001'') 5 2999 EUR,
                     ex_item (ProductId ''PROD-002'') 3 1550 EUR] ACTIVE)
   \<and> (\<Sum>i\<leftarrow>items (ex_cart [ex_item (ProductId ''PROD-001'') 5 2999 EUR,
                              ex_item (ProductId ''PROD-002'') 3 1550 EUR] ACTIVE).
          amountInCents (unitPrice i) * Quantity_value (quantity i)) \<le> MAX_SAFE_INTEGER
   \<and> Cart_total (ex_cart [ex_item (ProductId ''PROD-001'') 5 2999 EUR,
                          ex_item (ProductId ''PROD-002'') 3 1550 EUR] ACTIVE)
       = Inr \<lparr>amountInCents = 19645, currency = EUR\<rparr>
   \<and> (\<exists>cart m. basic_total_scenario ex_id (str ''user-123'') (str ''Blue Widget'')
                   (str ''Red Widget'') 0 1 2 = Inr cart
               \<and> Cart_total cart = Inr m \<and> Money_amount m = Number_literal (7548 / 100)
               \<and> itemCount cart = 3)"
proof -
  let ?c = "ex_cart [ex_item (ProductId ''PROD-001'') 5 2999 EUR,
                     ex_item (ProductId ''PROD-002'') 3 1550 EUR] ACTIVE"
  have h: "is_Cart ?c"
    by (simp add: ex_simps)
  have b: "(\<Sum>i\<leftarrow>items ?c. amountInCents (unitPrice i) * Quantity_value (quantity i))
             \<le> MAX_SAFE_INTEGER"
    by (simp add: ex_cart_def ex_item_def MAX_SAFE_INTEGER_def)
  have u: "\<exists>ch \<in> set (str ''user-123''). \<not> isWhiteSpace ch"
    by (simp add: str_def isWhiteSpace_def)
  have n1: "\<exists>ch \<in> set (str ''Blue Widget''). \<not> isWhiteSpace ch"
    and l1: "length (str ''Blue Widget'') \<le> 200"
    by (simp_all add: str_def isWhiteSpace_def)
  have n2: "\<exists>ch \<in> set (str ''Red Widget''). \<not> isWhiteSpace ch"
    and l2: "length (str ''Red Widget'') \<le> 200"
    by (simp_all add: str_def isWhiteSpace_def)
  have "Cart_total ?c = Inr \<lparr>amountInCents = 19645, currency = EUR\<rparr>"
    using total_is_sum_of_safe_line_totals [OF h b u n1 l1 n2 l2]
    by (simp add: ex_cart_def ex_item_def)
  then show ?thesis
    using h b total_is_sum_of_safe_line_totals [OF h b u n1 l1 n2 l2, of ex_id 0 1 2]
    by blast
qed

section \<open>Cart: adding items\<close>

text \<open>
  C4, as stated, fails: \<open>addItem\<close> checks the currency of the unit price and validates the
  new item before it looks at the number of items. On the ACTIVE cart of 100 lines with
  the distinct product ids PROD-00 to PROD-99 (all in EUR), \<open>addItem\<close> of the product
  PROD-NEW, which is not in the cart, with a unit price in USD fails with
  \<open>InvalidCartError\<close> and not with \<open>MaxCartItemsExceededError\<close>.
\<close>

theorem max_items_counterexample:
  "is_Cart (ex_full 100)
   \<and> status (ex_full 100) = ACTIVE
   \<and> length (items (ex_full 100)) = 100
   \<and> distinct (map productId (items (ex_full 100)))
   \<and> ProductId ''PROD-NEW'' \<notin> set (map productId (items (ex_full 100)))
   \<and> addItem (ex_full 100) (ex_item (ProductId ''PROD-NEW'') 1 100 USD) 1
       = Inl (InvalidCartError ''Item currency must match cart currency''
               (Some [(''cartId'', VStr ''123e4567-e89b-42d3-a456-426614174000''),
                      (''cartCurrency'', VStr ''EUR''), (''itemCurrency'', VStr ''USD'')]))
   \<and> DomainError_code (InvalidCartError ''Item currency must match cart currency''
               (Some [(''cartId'', VStr ''123e4567-e89b-42d3-a456-426614174000''),
                      (''cartCurrency'', VStr ''EUR''), (''itemCurrency'', VStr ''USD'')]))
       \<noteq> DomainError_code (MaxCartItemsExceededError 100)"
proof -
  have ea: "ensureActive (ex_full 100) = None"
    by (simp add: ensureActive_None ex_full_status)
  have cc: "cartCurrency (ex_full 100) = EUR"
    and cid: "CartId_value (cartId (ex_full 100)) = ''123e4567-e89b-42d3-a456-426614174000''"
    by (simp_all add: ex_full_def ex_cart_def ex_id_def)
  have pc: "currency (unitPrice (ex_item (ProductId ''PROD-NEW'') 1 100 USD)) = USD"
    by (simp add: ex_item_def)
  have "addItem (ex_full 100) (ex_item (ProductId ''PROD-NEW'') 1 100 USD) 1
       = Inl (InvalidCartError ''Item currency must match cart currency''
               (Some [(''cartId'', VStr ''123e4567-e89b-42d3-a456-426614174000''),
                      (''cartCurrency'', VStr ''EUR''), (''itemCurrency'', VStr ''USD'')]))"
    by (simp add: addItem_def ea cc cid pc)
  then show ?thesis
    using ex_full_is_Cart [of 100] ex_full_distinct [of 100] ex_full_fresh [of 100]
    by (auto simp add: ex_full_status ex_full_length)
qed

text \<open>
  C4, amended. For every ACTIVE cart and every item whose product id is not in the cart,
  whose unit price is in the currency of the cart and whose properties pass the
  validation of \<open>CartItem\<close> (a name that is not blank and has at most 200 characters, a
  unit price that is not zero): if the cart holds 100 line items, \<open>addItem\<close> fails with
  \<open>MaxCartItemsExceededError\<close>; if it holds 99, \<open>addItem\<close> succeeds and the item becomes
  the 100th line.
\<close>

theorem max_items_boundary:
  assumes "is_Cart c" and "status c = ACTIVE"
    and "\<forall>i \<in> set (items c). productId i \<noteq> productId p"
    and "currency (unitPrice p) = cartCurrency c"
    and "CartItem_validate p = None"
  shows "(length (items c) = 100 \<longrightarrow> addItem c p now = Inl (MaxCartItemsExceededError 100))
       \<and> (length (items c) = 99 \<longrightarrow>
            (\<exists>c'. addItem c p now = Inr c' \<and> items c' = items c @ [p]
                 \<and> length (items c') = 100 \<and> status c' = ACTIVE))"
proof -
  have "Cart_validate c = None"
    using assms(1) by (simp add: is_Cart_def)
  from addItem_new [OF this assms(2) assms(4) assms(5) assms(3), of now]
  show ?thesis
    using assms(2) by simp
qed

theorem max_items_boundary_witness:
  "is_Cart (ex_full 100) \<and> is_Cart (ex_full 99)
   \<and> length (items (ex_full 100)) = 100 \<and> length (items (ex_full 99)) = 99
   \<and> addItem (ex_full 100) (ex_item (ProductId ''PROD-NEW'') 1 100 EUR) 1
       = Inl (MaxCartItemsExceededError 100)
   \<and> (\<exists>c'. addItem (ex_full 99) (ex_item (ProductId ''PROD-NEW'') 1 100 EUR) 1 = Inr c'
           \<and> length (items c') = 100)"
proof -
  let ?p = "ex_item (ProductId ''PROD-NEW'') 1 100 EUR"
  have act: "status (ex_full n) = ACTIVE" for n
    by (rule ex_full_status)
  have fresh: "\<forall>i \<in> set (items (ex_full n)). productId i \<noteq> productId ?p" for n
    using ex_full_fresh [of n] by (simp add: ex_item_def)
  have cur: "currency (unitPrice ?p) = cartCurrency (ex_full n)" for n
    by (simp add: ex_item_def ex_full_def ex_cart_def)
  have pv: "CartItem_validate ?p = None"
    using ex_item_ok [of 1 100 "ProductId ''PROD-NEW''" EUR] by (simp add: is_CartItem_def)
  have h100: "is_Cart (ex_full 100)" and h99: "is_Cart (ex_full 99)"
    by (simp_all add: ex_full_is_Cart)
  show ?thesis
    using h100 h99
      max_items_boundary [OF h100 act fresh cur pv, of 1]
      max_items_boundary [OF h99 act fresh cur pv, of 1]
    by (auto simp add: ex_full_length)
qed


text \<open>
  C3, as stated, fails in three ways. (1) The merged quantity is validated: on the cart
  holding PROD-001 with quantity 999, \<open>addItem\<close> of PROD-001 with quantity 1 (same name,
  price and currency) fails with \<open>InvalidQuantityError\<close>. (2) The new name and price are
  validated by \<open>CartItem.create\<close> before they are discarded: with a blank name \<open>addItem\<close>
  fails with \<open>InvalidCartItemError\<close>. (3) \<open>Cart.validate\<close> does not require distinct
  product ids, so \<open>fromProps\<close> accepts a cart with two lines for PROD-001; \<open>addItem\<close> merges
  into the first and the result still has two lines for PROD-001.
\<close>

theorem merge_counterexample:
  "is_Cart (ex_cart [ex_item (ProductId ''PROD-001'') 999 2999 EUR] ACTIVE)
   \<and> addItem (ex_cart [ex_item (ProductId ''PROD-001'') 999 2999 EUR] ACTIVE)
        (ex_item (ProductId ''PROD-001'') 1 2999 EUR) 1
       = Inl (InvalidQuantityError 1000)
   \<and> is_Cart (ex_cart [ex_item (ProductId ''PROD-001'') 2 2999 EUR] ACTIVE)
   \<and> addItem (ex_cart [ex_item (ProductId ''PROD-001'') 2 2999 EUR] ACTIVE)
        ((ex_item (ProductId ''PROD-001'') 3 2999 EUR)\<lparr>productName := str ''  ''\<rparr>) 1
       = Inl (InvalidCartItemError ''Product name cannot be empty''
               (Some [(''productId'', VStr ''PROD-001'')]))
   \<and> fromProps (ex_cart [ex_item (ProductId ''PROD-001'') 2 2999 EUR,
                          ex_item (ProductId ''PROD-001'') 4 2999 EUR] ACTIVE)
       = Inr (ex_cart [ex_item (ProductId ''PROD-001'') 2 2999 EUR,
                       ex_item (ProductId ''PROD-001'') 4 2999 EUR] ACTIVE)
   \<and> addItem (ex_cart [ex_item (ProductId ''PROD-001'') 2 2999 EUR,
                        ex_item (ProductId ''PROD-001'') 4 2999 EUR] ACTIVE)
        (ex_item (ProductId ''PROD-001'') 3 2999 EUR) 1
       = Inr ((ex_cart [ex_item (ProductId ''PROD-001'') 5 2999 EUR,
                        ex_item (ProductId ''PROD-001'') 4 2999 EUR] ACTIVE)\<lparr>updatedAt := 1\<rparr>)"
proof -
  let ?P = "ProductId ''PROD-001''"
  have a: "addItem (ex_cart [ex_item ?P 999 2999 EUR] ACTIVE) (ex_item ?P 1 2999 EUR) 1
             = Inl (InvalidQuantityError 1000)"
    by (subst ex_merge) simp_all
  have ea: "ensureActive (ex_cart its ACTIVE) = None" for its
    by (simp add: ensureActive_None ex_cart_def)
  have "CartItem_create ((ex_item ?P 3 2999 EUR)\<lparr>productName := str ''  ''\<rparr>)
          = Inl (InvalidCartItemError ''Product name cannot be empty''
                  (Some [(''productId'', VStr ''PROD-001'')]))"
    by (simp add: CartItem_create_def new_CartItem_def CartItem_validate_def trim_def str_def
        isWhiteSpace_def ex_item_def)
  then have b: "addItem (ex_cart [ex_item ?P 2 2999 EUR] ACTIVE)
                  ((ex_item ?P 3 2999 EUR)\<lparr>productName := str ''  ''\<rparr>) 1
                = Inl (InvalidCartItemError ''Product name cannot be empty''
                        (Some [(''productId'', VStr ''PROD-001'')]))"
    by (simp add: addItem_def ea) (simp add: ex_cart_def ex_item_def)
  have c: "fromProps (ex_cart [ex_item ?P 2 2999 EUR, ex_item ?P 4 2999 EUR] ACTIVE)
             = Inr (ex_cart [ex_item ?P 2 2999 EUR, ex_item ?P 4 2999 EUR] ACTIVE)"
    by (simp add: fromProps_def new_Cart_ok ex_simps)
  have d: "addItem (ex_cart [ex_item ?P 2 2999 EUR, ex_item ?P 4 2999 EUR] ACTIVE)
             (ex_item ?P 3 2999 EUR) 1
           = Inr ((ex_cart [ex_item ?P 5 2999 EUR, ex_item ?P 4 2999 EUR] ACTIVE)\<lparr>updatedAt := 1\<rparr>)"
    by (subst ex_merge) (simp_all add: ex_item_ok, simp add: ex_item_def)
  have e: "is_Cart (ex_cart [ex_item ?P 999 2999 EUR] ACTIVE)"
    "is_Cart (ex_cart [ex_item ?P 2 2999 EUR] ACTIVE)"
    by (simp_all add: ex_simps)
  show ?thesis
    using a b c d e by simp
qed

text \<open>
  C3, amended. For every ACTIVE cart whose line items have distinct product ids and
  contain an item with product id P (quantity q1, name n1, price p1), \<open>addItem(P, n2, q2,
  p2)\<close> with p2 in the currency of the cart and not zero, n2 not blank and of at most 200
  characters, and \<open>q1 + q2 \<le> 999\<close>, yields a cart with exactly one line item for P, at the
  same position, whose quantity is \<open>q1 + q2\<close> and whose name and unit price are still n1
  and p1; the other lines and the number of lines are unchanged.
\<close>

theorem merge_same_product:
  assumes "is_Cart c" and "status c = ACTIVE"
    and "distinct (map productId (items c))"
    and "i < length (items c)" and "productId (items c ! i) = productId p"
    and "currency (unitPrice p) = cartCurrency c"
    and "CartItem_validate p = None" and "is_Quantity (quantity p)"
    and "Quantity_value (quantity (items c ! i)) + Quantity_value (quantity p) \<le> 999"
  shows "\<exists>c'. addItem c p now = Inr c'
           \<and> length (items c') = length (items c)
           \<and> length (filter (\<lambda>x. productId x = productId p) (items c')) = 1
           \<and> productId (items c' ! i) = productId p
           \<and> quantity (items c' ! i)
               = Quantity (Quantity_value (quantity (items c ! i)) + Quantity_value (quantity p))
           \<and> productName (items c' ! i) = productName (items c ! i)
           \<and> unitPrice (items c' ! i) = unitPrice (items c ! i)
           \<and> (\<forall>j < length (items c). j \<noteq> i \<longrightarrow> items c' ! j = items c ! j)"
proof -
  let ?m = "(items c ! i)\<lparr>quantity :=
              Quantity (Quantity_value (quantity (items c ! i)) + Quantity_value (quantity p))\<rparr>"
  let ?c' = "c\<lparr>items := (items c)[i := ?m], updatedAt := now\<rparr>"
  have fi: "findIndex (\<lambda>item. productId item = productId p) (items c) = int i"
    using findIndex_distinct [OF assms(3) assms(4)] assms(5) by simp
  have r: "addItem c p now = Inr ?c'"
    using addItem_merge [OF assms(1) assms(2) assms(6) assms(7) assms(8) fi, of now] assms(9)
    by simp
  have keys: "map productId ((items c)[i := ?m]) = map productId (items c)"
    using assms(4) by (simp add: map_update list_update_same_conv)
  have "length (filter (\<lambda>x. productId x = productId ((items c)[i := ?m] ! i)) ((items c)[i := ?m])) = 1"
    using assms(3) assms(4) by (intro filter_key_one) (simp_all add: keys)
  then have one: "length (filter (\<lambda>x. productId x = productId p) (items ?c')) = 1"
    using assms(4) assms(5) by simp
  show ?thesis
    using r one assms(4) assms(5) by simp
qed


theorem merge_same_product_witness:
  "is_Cart (ex_cart [ex_item (ProductId ''PROD-001'') 2 2999 EUR,
                     ex_item (ProductId ''PROD-002'') 1 1550 EUR] ACTIVE)
   \<and> distinct (map productId (items (ex_cart [ex_item (ProductId ''PROD-001'') 2 2999 EUR,
                     ex_item (ProductId ''PROD-002'') 1 1550 EUR] ACTIVE)))
   \<and> (\<exists>c'. addItem (ex_cart [ex_item (ProductId ''PROD-001'') 2 2999 EUR,
                             ex_item (ProductId ''PROD-002'') 1 1550 EUR] ACTIVE)
              ((ex_item (ProductId ''PROD-002'') 3 999 EUR)\<lparr>productName := str ''Other name''\<rparr>) 1
            = Inr c'
          \<and> length (items c') = 2
          \<and> quantity (items c' ! 1) = Quantity 4
          \<and> productName (items c' ! 1) = str ''Blue Widget''
          \<and> unitPrice (items c' ! 1) = \<lparr>amountInCents = 1550, currency = EUR\<rparr>)"
proof -
  let ?c = "ex_cart [ex_item (ProductId ''PROD-001'') 2 2999 EUR,
                     ex_item (ProductId ''PROD-002'') 1 1550 EUR] ACTIVE"
  let ?p = "(ex_item (ProductId ''PROD-002'') 3 999 EUR)\<lparr>productName := str ''Other name''\<rparr>"
  have h1: "is_Cart ?c" by (simp add: ex_simps)
  have h2: "status ?c = ACTIVE" by (simp add: ex_cart_def)
  have h3: "distinct (map productId (items ?c))" by (simp add: ex_cart_def ex_item_def)
  have h4: "1 < length (items ?c)" by (simp add: ex_cart_def)
  have h5: "productId (items ?c ! 1) = productId ?p" by (simp add: ex_cart_def ex_item_def)
  have h6: "currency (unitPrice ?p) = cartCurrency ?c" by (simp add: ex_cart_def ex_item_def)
  have h7: "CartItem_validate ?p = None"
    by (simp add: CartItem_validate_None ex_item_def str_def isWhiteSpace_def)
  have h8: "is_Quantity (quantity ?p)" by (simp add: is_Quantity_iff ex_item_def)
  have h9: "Quantity_value (quantity (items ?c ! 1)) + Quantity_value (quantity ?p) \<le> 999"
    by (simp add: ex_cart_def ex_item_def)
  show ?thesis
    using h1 h3 merge_same_product [OF h1 h2 h3 h4 h5 h6 h7 h8 h9, of 1]
    by (auto simp add: ex_cart_def ex_item_def)
qed

text \<open>
  C9, as stated, fails in three ways. On the cart holding PROD-001 with quantity 999,
  \<open>addItem\<close> of PROD-001 with quantity 1 (1) and a unit price in USD fails with
  \<open>InvalidCartError\<close>, (2) and a blank name fails with \<open>InvalidCartItemError\<close>: both checks
  come before the quantities are added. (3) On the cart that \<open>fromProps\<close> accepts with two
  lines for PROD-001, of quantities 1 and 999, \<open>addItem\<close> of PROD-001 with quantity 1
  succeeds (it merges into the first line), although the cart contains a line for
  PROD-001 with \<open>q1 = 999\<close> and \<open>q1 + q2 > 999\<close>.
\<close>

theorem quantity_cap_counterexample:
  "is_Cart (ex_cart [ex_item (ProductId ''PROD-001'') 999 2999 EUR] ACTIVE)
   \<and> addItem (ex_cart [ex_item (ProductId ''PROD-001'') 999 2999 EUR] ACTIVE)
        (ex_item (ProductId ''PROD-001'') 1 2999 USD) 1
       = Inl (InvalidCartError ''Item currency must match cart currency''
               (Some [(''cartId'', VStr ''123e4567-e89b-42d3-a456-426614174000''),
                      (''cartCurrency'', VStr ''EUR''), (''itemCurrency'', VStr ''USD'')]))
   \<and> addItem (ex_cart [ex_item (ProductId ''PROD-001'') 999 2999 EUR] ACTIVE)
        ((ex_item (ProductId ''PROD-001'') 1 2999 EUR)\<lparr>productName := str ''  ''\<rparr>) 1
       = Inl (InvalidCartItemError ''Product name cannot be empty''
               (Some [(''productId'', VStr ''PROD-001'')]))
   \<and> fromProps (ex_cart [ex_item (ProductId ''PROD-001'') 1 2999 EUR,
                          ex_item (ProductId ''PROD-001'') 999 2999 EUR] ACTIVE)
       = Inr (ex_cart [ex_item (ProductId ''PROD-001'') 1 2999 EUR,
                       ex_item (ProductId ''PROD-001'') 999 2999 EUR] ACTIVE)
   \<and> addItem (ex_cart [ex_item (ProductId ''PROD-001'') 1 2999 EUR,
                        ex_item (ProductId ''PROD-001'') 999 2999 EUR] ACTIVE)
        (ex_item (ProductId ''PROD-001'') 1 2999 EUR) 1
       = Inr ((ex_cart [ex_item (ProductId ''PROD-001'') 2 2999 EUR,
                        ex_item (ProductId ''PROD-001'') 999 2999 EUR] ACTIVE)\<lparr>updatedAt := 1\<rparr>)"
proof -
  let ?P = "ProductId ''PROD-001''"
  have ea: "ensureActive (ex_cart its ACTIVE) = None" for its
    by (simp add: ensureActive_None ex_cart_def)
  have a: "addItem (ex_cart [ex_item ?P 999 2999 EUR] ACTIVE) (ex_item ?P 1 2999 USD) 1
       = Inl (InvalidCartError ''Item currency must match cart currency''
               (Some [(''cartId'', VStr ''123e4567-e89b-42d3-a456-426614174000''),
                      (''cartCurrency'', VStr ''EUR''), (''itemCurrency'', VStr ''USD'')]))"
    by (simp add: addItem_def ea) (simp add: ex_cart_def ex_item_def ex_id_def)
  have "CartItem_create ((ex_item ?P 1 2999 EUR)\<lparr>productName := str ''  ''\<rparr>)
          = Inl (InvalidCartItemError ''Product name cannot be empty''
                  (Some [(''productId'', VStr ''PROD-001'')]))"
    by (simp add: CartItem_create_def new_CartItem_def CartItem_validate_def trim_def str_def
        isWhiteSpace_def ex_item_def)
  then have b: "addItem (ex_cart [ex_item ?P 999 2999 EUR] ACTIVE)
                  ((ex_item ?P 1 2999 EUR)\<lparr>productName := str ''  ''\<rparr>) 1
                = Inl (InvalidCartItemError ''Product name cannot be empty''
                        (Some [(''productId'', VStr ''PROD-001'')]))"
    by (simp add: addItem_def ea) (simp add: ex_cart_def ex_item_def)
  have c: "fromProps (ex_cart [ex_item ?P 1 2999 EUR, ex_item ?P 999 2999 EUR] ACTIVE)
             = Inr (ex_cart [ex_item ?P 1 2999 EUR, ex_item ?P 999 2999 EUR] ACTIVE)"
    by (simp add: fromProps_def new_Cart_ok ex_simps)
  have d: "addItem (ex_cart [ex_item ?P 1 2999 EUR, ex_item ?P 999 2999 EUR] ACTIVE)
             (ex_item ?P 1 2999 EUR) 1
           = Inr ((ex_cart [ex_item ?P 2 2999 EUR, ex_item ?P 999 2999 EUR] ACTIVE)\<lparr>updatedAt := 1\<rparr>)"
    by (subst ex_merge) (simp_all add: ex_item_ok, simp add: ex_item_def)
  have e: "is_Cart (ex_cart [ex_item ?P 999 2999 EUR] ACTIVE)"
    by (simp add: ex_simps)
  show ?thesis
    using a b c d e by simp
qed

text \<open>
  C9, amended. For every ACTIVE cart whose line items have distinct product ids and
  contain an item with product id P and quantity q1, \<open>addItem\<close> for P with a unit price in
  the currency of the cart, valid item properties (name not blank and of at most 200
  characters, unit price not zero) and a quantity q2 such that \<open>q1 + q2 > 999\<close> fails with
  \<open>InvalidQuantityError\<close> carrying \<open>q1 + q2\<close> (code \<open>INVALID_QUANTITY\<close>, not
  \<open>MAX_CART_ITEMS_EXCEEDED\<close>): the cap of 999 applies to the merged quantity. The cart is
  an immutable value and is unchanged.
\<close>

theorem merged_quantity_cap:
  assumes "is_Cart c" and "status c = ACTIVE"
    and "distinct (map productId (items c))"
    and "i < length (items c)" and "productId (items c ! i) = productId p"
    and "currency (unitPrice p) = cartCurrency c"
    and "CartItem_validate p = None" and "is_Quantity (quantity p)"
    and "Quantity_value (quantity (items c ! i)) + Quantity_value (quantity p) > 999"
  shows "\<exists>e. addItem c p now = Inl e
           \<and> e = InvalidQuantityError
                   (of_int (Quantity_value (quantity (items c ! i)) + Quantity_value (quantity p)))
           \<and> DomainError_code e = Some ''INVALID_QUANTITY''
           \<and> DomainError_code e \<noteq> DomainError_code (MaxCartItemsExceededError MAX_CART_ITEMS)"
proof -
  have fi: "findIndex (\<lambda>item. productId item = productId p) (items c) = int i"
    using findIndex_distinct [OF assms(3) assms(4)] assms(5) by simp
  show ?thesis
    using addItem_merge [OF assms(1) assms(2) assms(6) assms(7) assms(8) fi, of now] assms(9)
    by simp
qed

theorem merged_quantity_cap_witness:
  "is_Cart (ex_cart [ex_item (ProductId ''PROD-001'') 2 2999 EUR,
                     ex_item (ProductId ''PROD-002'') 998 1550 EUR] ACTIVE)
   \<and> addItem (ex_cart [ex_item (ProductId ''PROD-001'') 2 2999 EUR,
                        ex_item (ProductId ''PROD-002'') 998 1550 EUR] ACTIVE)
        (ex_item (ProductId ''PROD-002'') 2 1550 EUR) 1
       = Inl (InvalidQuantityError 1000)"
proof -
  let ?c = "ex_cart [ex_item (ProductId ''PROD-001'') 2 2999 EUR,
                     ex_item (ProductId ''PROD-002'') 998 1550 EUR] ACTIVE"
  let ?p = "ex_item (ProductId ''PROD-002'') 2 1550 EUR"
  have h1: "is_Cart ?c" by (simp add: ex_simps)
  have h2: "status ?c = ACTIVE" by (simp add: ex_cart_def)
  have h3: "distinct (map productId (items ?c))" by (simp add: ex_cart_def ex_item_def)
  have h4: "1 < length (items ?c)" by (simp add: ex_cart_def)
  have h5: "productId (items ?c ! 1) = productId ?p" by (simp add: ex_cart_def ex_item_def)
  have h6: "currency (unitPrice ?p) = cartCurrency ?c" by (simp add: ex_cart_def ex_item_def)
  have h7: "CartItem_validate ?p = None"
    by (simp add: CartItem_validate_None ex_item_def str_def isWhiteSpace_def)
  have h8: "is_Quantity (quantity ?p)" by (simp add: is_Quantity_iff ex_item_def)
  have h9: "Quantity_value (quantity (items ?c ! 1)) + Quantity_value (quantity ?p) > 999"
    by (simp add: ex_cart_def ex_item_def)
  have "Quantity_value (quantity (items ?c ! 1)) + Quantity_value (quantity ?p) = 1000"
    by (simp add: ex_cart_def ex_item_def)
  then show ?thesis
    using h1 merged_quantity_cap [OF h1 h2 h3 h4 h5 h6 h7 h8 h9, of 1]
    by simp
qed


end
